theory Spec2Isabelle
  imports Complex_Main "HOL-Library.Sublist" "HOL-Library.Char_ord" "HOL-Library.List_Lexorder"
begin

section \<open>Strings\<close>

text \<open>
  Source strings are sequences of code units. They are modelled as \<open>string\<close>, that is
  lists of \<open>char\<close>, which covers the code units below 256. \<open>trim\<close> removes the white
  space of that range on both sides, \<open>toLowerCase\<close> maps the upper-case letters of that
  range, and \<open>split\<close> always returns at least one piece.
\<close>

definition isWhitespace :: "char \<Rightarrow> bool" where
  "isWhitespace c =
     (c \<in> set [CHR 0x09, CHR 0x0A, CHR 0x0B, CHR 0x0C, CHR 0x0D, CHR 0x20, CHR 0xA0])"

definition trim :: "string \<Rightarrow> string" where
  "trim s = rev (dropWhile isWhitespace (rev (dropWhile isWhitespace s)))"

definition upperLetters :: "char list" where
  "upperLetters = ''ABCDEFGHIJKLMNOPQRSTUVWXYZ'' @
     [CHR 0xC0, CHR 0xC1, CHR 0xC2, CHR 0xC3, CHR 0xC4, CHR 0xC5, CHR 0xC6, CHR 0xC7,
      CHR 0xC8, CHR 0xC9, CHR 0xCA, CHR 0xCB, CHR 0xCC, CHR 0xCD, CHR 0xCE, CHR 0xCF,
      CHR 0xD0, CHR 0xD1, CHR 0xD2, CHR 0xD3, CHR 0xD4, CHR 0xD5, CHR 0xD6,
      CHR 0xD8, CHR 0xD9, CHR 0xDA, CHR 0xDB, CHR 0xDC, CHR 0xDD, CHR 0xDE]"

definition lowerLetters :: "char list" where
  "lowerLetters = ''abcdefghijklmnopqrstuvwxyz'' @
     [CHR 0xE0, CHR 0xE1, CHR 0xE2, CHR 0xE3, CHR 0xE4, CHR 0xE5, CHR 0xE6, CHR 0xE7,
      CHR 0xE8, CHR 0xE9, CHR 0xEA, CHR 0xEB, CHR 0xEC, CHR 0xED, CHR 0xEE, CHR 0xEF,
      CHR 0xF0, CHR 0xF1, CHR 0xF2, CHR 0xF3, CHR 0xF4, CHR 0xF5, CHR 0xF6,
      CHR 0xF8, CHR 0xF9, CHR 0xFA, CHR 0xFB, CHR 0xFC, CHR 0xFD, CHR 0xFE]"

definition toLowerChar :: "char \<Rightarrow> char" where
  "toLowerChar c = (case map_of (zip upperLetters lowerLetters) c of Some l \<Rightarrow> l | None \<Rightarrow> c)"

definition toLowerCase :: "string \<Rightarrow> string" where
  "toLowerCase s = map toLowerChar s"

text \<open>\<open>s.split(d)\<close> for a one-character separator \<open>d\<close>.\<close>

fun split :: "char \<Rightarrow> string \<Rightarrow> string list" where
  "split d [] = [[]]"
| "split d (c # cs) =
     (if c = d then [] # split d cs
      else (case split d cs of w # ws \<Rightarrow> (c # w) # ws | [] \<Rightarrow> [[c]]))"

text \<open>\<open>xs.join(sep)\<close>.\<close>

fun join :: "string \<Rightarrow> string list \<Rightarrow> string" where
  "join sep [] = []"
| "join sep [x] = x"
| "join sep (x # y # ys) = x @ sep @ join sep (y # ys)"

text \<open>Decimal rendering of a row number inside a template literal.\<close>

fun showNat :: "nat \<Rightarrow> string" where
  "showNat n =
     (if n < 10 then [''0123456789'' ! n]
      else showNat (n div 10) @ [''0123456789'' ! (n mod 10)])"

declare showNat.simps [simp del]

section \<open>Line tokenizer\<close>

text \<open>
  \<open>parseCsvLine\<close> walks the line with the accumulators \<open>result\<close>, \<open>current\<close> and
  \<open>inQuotes\<close>: a double quote toggles \<open>inQuotes\<close>, a comma outside quotes closes the
  current field, any other character is appended to it. The last field is always pushed.
\<close>

fun parseCsvLine_loop :: "string \<Rightarrow> string list \<Rightarrow> string \<Rightarrow> bool \<Rightarrow> string list" where
  "parseCsvLine_loop [] result current inQuotes = result @ [trim current]"
| "parseCsvLine_loop (char # rest) result current inQuotes =
     (if char = CHR 0x22 then parseCsvLine_loop rest result current (\<not> inQuotes)
      else if char = CHR '','' \<and> \<not> inQuotes
        then parseCsvLine_loop rest (result @ [trim current]) [] inQuotes
      else parseCsvLine_loop rest result (current @ [char]) inQuotes)"

definition parseCsvLine :: "string \<Rightarrow> string list" where
  "parseCsvLine line = parseCsvLine_loop line [] [] False"

text \<open>
  Both parsers start the same way: the text is cut at line feeds, blank lines are dropped,
  the first remaining line is the header, and every header cell is lower-cased and trimmed.
  \<open>columnIndex\<close> is filled cell by cell, so a repeated name keeps its last position.
\<close>

definition nonBlankLines :: "string \<Rightarrow> string list" where
  "nonBlankLines csvContent = filter (\<lambda>line. trim line \<noteq> []) (split CHR 0x0A csvContent)"

definition headersOf :: "string \<Rightarrow> string list" where
  "headersOf headerLine = map (\<lambda>h. trim (toLowerCase h)) (parseCsvLine headerLine)"

definition columnIndexOf :: "string list \<Rightarrow> (string \<rightharpoonup> nat)" where
  "columnIndexOf headers =
     fold (\<lambda>(header, index) columnIndex. columnIndex(header \<mapsto> index))
          (zip headers [0..<length headers]) Map.empty"

text \<open>
  \<open>values[columnIndex[name]]?.trim()\<close>: an absent column or a row that is too short gives
  \<open>undefined\<close>, here \<open>None\<close>.
\<close>

definition field :: "(string \<rightharpoonup> nat) \<Rightarrow> string list \<Rightarrow> string \<Rightarrow> string option" where
  "field columnIndex values name =
     (case columnIndex name of
        None \<Rightarrow> None
      | Some i \<Rightarrow> if i < length values then Some (trim (values ! i)) else None)"

section \<open>Timestamp normalizer\<close>

text \<open>
  The engine's \<open>Date\<close> constructor is a parameter \<open>D\<close>: it maps a string to the instant
  (milliseconds since the epoch) or to \<open>None\<close> for an invalid date.
\<close>

type_synonym dateParser = "string \<Rightarrow> int option"

definition dottedLayout :: "dateParser \<Rightarrow> string \<Rightarrow> int option" where
  "dottedLayout D trimmed =
     (if CHR ''.'' \<in> set trimmed \<and> length (split CHR ''.'' trimmed) = 3 then
        (let parts = split CHR '' '' trimmed in
         if length parts = 2 then
           (let datePart = parts ! 0;
                timePart = parts ! 1;
                dateComponents = split CHR ''.'' datePart in
            if length dateComponents = 3 then
              (let day = dateComponents ! 0;
                   month = dateComponents ! 1;
                   year = dateComponents ! 2;
                   isoFormat = year @ ''-'' @ month @ ''-'' @ day @ '' '' @ timePart
               in D isoFormat)
            else None)
         else None)
      else None)"

definition parseTimestamp :: "dateParser \<Rightarrow> string \<Rightarrow> int option" where
  "parseTimestamp D timestamp =
     (if timestamp = [] \<or> trim timestamp = [] then None
      else (let trimmed = trim timestamp in
            case dottedLayout D trimmed of
              Some date \<Rightarrow> Some date
            | None \<Rightarrow> D trimmed))"

section \<open>Flight record parser\<close>

record Flight =
  airline :: string
  flightCode :: string
  departureAirport :: string
  arrivalAirport :: string
  departureTimestampLocal :: int
  arrivalTimestampLocal :: int

record ParseResult =
  flights :: "Flight list"
  errors :: "string list"
  totalRows :: nat
  successfulRows :: nat
  failedRows :: nat

definition REQUIRED_COLUMNS :: "string list" where
  "REQUIRED_COLUMNS =
     [''airline'', ''flight_code'', ''departure_airport'', ''arrival_airport'',
      ''departure_timestamp_local'', ''arrival_timestamp_local'']"

text \<open>\<open>!value\<close> for an optional string: absent or empty.\<close>

definition falsy :: "string option \<Rightarrow> bool" where
  "falsy v = (case v of None \<Rightarrow> True | Some s \<Rightarrow> s = [])"

definition str :: "string option \<Rightarrow> string" where
  "str v = (case v of None \<Rightarrow> [] | Some s \<Rightarrow> s)"

text \<open>
  The outcome of one data row: the error message pushed, or the flight built. \<open>i\<close> is the
  position of the line among the non-blank lines, the header being line 0. Nothing in the
  body of the source's \<open>try\<close> can throw, so its \<open>catch\<close> has no branch here.
\<close>

definition parseFlightRow :: "dateParser \<Rightarrow> (string \<rightharpoonup> nat) \<Rightarrow> nat \<Rightarrow> string \<Rightarrow> string + Flight" where
  "parseFlightRow D columnIndex i line =
     (let values = parseCsvLine line;
          airline = field columnIndex values ''airline'';
          flightCode = field columnIndex values ''flight_code'';
          departureAirport = field columnIndex values ''departure_airport'';
          arrivalAirport = field columnIndex values ''arrival_airport'';
          departureTimestampLocalStr = field columnIndex values ''departure_timestamp_local'';
          arrivalTimestampLocalStr = field columnIndex values ''arrival_timestamp_local'';
          missingFields =
            (if falsy airline then [''airline''] else []) @
            (if falsy flightCode then [''flight_code''] else []) @
            (if falsy departureAirport then [''departure_airport''] else []) @
            (if falsy arrivalAirport then [''arrival_airport''] else []) @
            (if falsy departureTimestampLocalStr then [''departure_timestamp_local''] else []) @
            (if falsy arrivalTimestampLocalStr then [''arrival_timestamp_local''] else [])
      in
      if missingFields \<noteq> [] then
        Inl (''Row '' @ showNat (i + 1) @ '': Missing values for '' @ join '', '' missingFields
             @ '' (empty or not provided)'')
      else
        (case (parseTimestamp D (str departureTimestampLocalStr),
               parseTimestamp D (str arrivalTimestampLocalStr)) of
           (Some departureDate, Some arrivalDate) \<Rightarrow>
             Inr \<lparr> airline = str airline, flightCode = str flightCode,
                   departureAirport = str departureAirport,
                   arrivalAirport = str arrivalAirport,
                   departureTimestampLocal = departureDate,
                   arrivalTimestampLocal = arrivalDate \<rparr>
         | (dep, arr) \<Rightarrow>
             (let invalidTimestamps =
                (if dep = None
                 then [''departure_timestamp_local='' @ [CHR 0x22]
                       @ take 30 (str departureTimestampLocalStr) @ [CHR 0x22]]
                 else []) @
                (if arr = None
                 then [''arrival_timestamp_local='' @ [CHR 0x22]
                       @ take 30 (str arrivalTimestampLocalStr) @ [CHR 0x22]]
                 else [])
              in Inl (''Row '' @ showNat (i + 1) @ '': Invalid timestamp format: ''
                      @ join '', '' invalidTimestamps))))"

text \<open>The \<open>for\<close> loop over the data lines, \<open>i\<close> being the index of the head of the list.\<close>

fun parseFlightRows ::
  "dateParser \<Rightarrow> (string \<rightharpoonup> nat) \<Rightarrow> nat \<Rightarrow> string list \<Rightarrow> ParseResult \<Rightarrow> ParseResult" where
  "parseFlightRows D columnIndex i [] acc = acc"
| "parseFlightRows D columnIndex i (line # rest) acc =
     (case parseFlightRow D columnIndex i line of
        Inl message \<Rightarrow>
          parseFlightRows D columnIndex (i + 1) rest
            (acc\<lparr> errors := errors acc @ [message], failedRows := failedRows acc + 1 \<rparr>)
      | Inr flight \<Rightarrow>
          parseFlightRows D columnIndex (i + 1) rest
            (acc\<lparr> flights := flights acc @ [flight], successfulRows := successfulRows acc + 1 \<rparr>))"

definition missingColumnsOf :: "string list \<Rightarrow> string list" where
  "missingColumnsOf headers = filter (\<lambda>col. col \<notin> set headers) REQUIRED_COLUMNS"

definition parseFlightsCsv :: "dateParser \<Rightarrow> string \<Rightarrow> ParseResult" where
  "parseFlightsCsv D csvContent =
     (let lines = nonBlankLines csvContent in
      if length lines = 0 then
        \<lparr> flights = [], errors = [''CSV file is empty''],
          totalRows = 0, successfulRows = 0, failedRows = 0 \<rparr>
      else
        (let headers = headersOf (lines ! 0);
             missingColumns = missingColumnsOf headers in
         if length missingColumns > 0 then
           \<lparr> flights = [],
             errors = [''Missing required columns: '' @ join '', '' missingColumns],
             totalRows = length lines - 1, successfulRows = 0,
             failedRows = length lines - 1 \<rparr>
         else
           parseFlightRows D (columnIndexOf headers) 1 (tl lines)
             \<lparr> flights = [], errors = [],
               totalRows = length lines - 1, successfulRows = 0, failedRows = 0 \<rparr>))"

text \<open>
  The specification's words for the lines of a file: the lines are the pieces between
  line feeds, a line is blank when it holds nothing but white space, the first line that
  is not blank is the header and the other lines that are not blank are the data lines.
\<close>

definition blankLine_spec :: "string \<Rightarrow> bool" where
  "blankLine_spec line = (\<forall>c \<in> set line. isWhitespace c)"

definition nonBlankLines_spec :: "string \<Rightarrow> string list" where
  "nonBlankLines_spec csvContent =
     filter (\<lambda>line. \<not> blankLine_spec line) (split CHR 0x0A csvContent)"

definition dataLines_spec :: "string \<Rightarrow> string list" where
  "dataLines_spec csvContent = tl (nonBlankLines_spec csvContent)"

section \<open>Airport reference parser\<close>

text \<open>
  Numbers are kept abstract in the airport record (type \<open>'n\<close>). The engine's
  \<open>parseFloat\<close> is a parameter \<open>pf\<close> that returns \<open>None\<close> where the source gets \<open>NaN\<close>.
  The fields \<open>id\<close> and \<open>type\<close> of the source are called \<open>airportId\<close> and \<open>airportType\<close>.
\<close>

record 'n Airport =
  airportId :: string
  ident :: string
  airportType :: string
  name :: string
  coordinates :: "'n \<times> 'n"
  elevationFt :: "'n option"
  continent :: string
  isoCountry :: string
  isoRegion :: string
  municipality :: string
  scheduledService :: bool
  icaoCode :: string
  iataCode :: string
  gpsCode :: string
  localCode :: string

type_synonym 'n AirportsMap = "string \<rightharpoonup> 'n Airport"

type_synonym CodeReplacementMap = "string \<rightharpoonup> string"

definition parseBoolean :: "string \<Rightarrow> bool" where
  "parseBoolean v = (toLowerCase v = ''yes'' \<or> v = ''1'' \<or> toLowerCase v = ''true'')"

definition parseNumber :: "(string \<Rightarrow> 'n option) \<Rightarrow> string \<Rightarrow> 'n option" where
  "parseNumber pf v = (if v = [] \<or> trim v = [] then None else pf v)"

text \<open>
  The body of the row loop: \<open>None\<close> is a \<open>continue\<close>, \<open>Some airport\<close> is the airport that
  is stored under its own \<open>iataCode\<close>. A cell read as \<open>values[...]?.trim() || ''\<close> is
  \<open>str (field ...)\<close>. Nothing in the body can throw.
\<close>

definition parseAirportRow ::
  "(string \<Rightarrow> 'n option) \<Rightarrow> (string \<rightharpoonup> nat) \<Rightarrow> string \<Rightarrow> 'n Airport option" where
  "parseAirportRow pf columnIndex line =
     (let values = parseCsvLine line;
          cell = (\<lambda>name. str (field columnIndex values name));
          iataCodeStr = cell ''iata_code''
      in
      if iataCodeStr = [] then None
      else
        (let latitudeStr = cell ''latitude_deg'';
             longitudeStr = cell ''longitude_deg'';
             elevationStr = cell ''elevation_ft'';
             scheduledServiceStr = cell ''scheduled_service''
         in
         case (parseNumber pf latitudeStr, parseNumber pf longitudeStr) of
           (Some latitude, Some longitude) \<Rightarrow>
             Some \<lparr> airportId = cell ''id'', ident = cell ''ident'',
                    airportType = cell ''type'', name = cell ''name'',
                    coordinates = (latitude, longitude),
                    elevationFt = parseNumber pf elevationStr,
                    continent = cell ''continent'', isoCountry = cell ''iso_country'',
                    isoRegion = cell ''iso_region'', municipality = cell ''municipality'',
                    scheduledService = parseBoolean scheduledServiceStr,
                    icaoCode = cell ''icao_code'', iataCode = iataCodeStr,
                    gpsCode = cell ''gps_code'', localCode = cell ''local_code'' \<rparr>
         | _ \<Rightarrow> None))"

fun parseAirportRows ::
  "(string \<Rightarrow> 'n option) \<Rightarrow> (string \<rightharpoonup> nat) \<Rightarrow> string list \<Rightarrow> 'n AirportsMap \<Rightarrow> 'n AirportsMap" where
  "parseAirportRows pf columnIndex [] airportsMap = airportsMap"
| "parseAirportRows pf columnIndex (line # rest) airportsMap =
     (case parseAirportRow pf columnIndex line of
        None \<Rightarrow> parseAirportRows pf columnIndex rest airportsMap
      | Some airport \<Rightarrow>
          parseAirportRows pf columnIndex rest (airportsMap(iataCode airport \<mapsto> airport)))"

definition parseAirportsCsv :: "(string \<Rightarrow> 'n option) \<Rightarrow> string \<Rightarrow> 'n AirportsMap" where
  "parseAirportsCsv pf csvContent =
     (let lines = nonBlankLines csvContent in
      if length lines = 0 then Map.empty
      else parseAirportRows pf (columnIndexOf (headersOf (lines ! 0))) (tl lines) Map.empty)"

definition getAirportByCode ::
  "string \<Rightarrow> 'n AirportsMap \<Rightarrow> CodeReplacementMap \<Rightarrow> 'n Airport option" where
  "getAirportByCode code airportsMap replacements =
     (case airportsMap code of
        Some airport \<Rightarrow> Some airport
      | None \<Rightarrow>
          (case replacements code of
             Some newCode \<Rightarrow> airportsMap newCode
           | None \<Rightarrow> None))"

section \<open>Visualization builder\<close>

record 'n FlightVisualizationData =
  fromAirport :: "'n Airport"
  toAirport :: "'n Airport"
  departureTimestamp :: int
  arrivalTimestamp :: int
  flight :: Flight

record 'n VisualizationResult =
  visualizations :: "'n FlightVisualizationData list"
  totalFlightsParsed :: nat
  distinctAirports :: "string set"
  resolutionErrors :: "string list"
  unresolvedAirports :: "string set"

definition createFlightVisualization ::
  "Flight \<Rightarrow> 'n Airport \<Rightarrow> 'n Airport \<Rightarrow> 'n FlightVisualizationData" where
  "createFlightVisualization f fromA toA =
     \<lparr> fromAirport = fromA, toAirport = toA,
       departureTimestamp = departureTimestampLocal f,
       arrivalTimestamp = arrivalTimestampLocal f,
       flight = f \<rparr>"

definition departureError :: "Flight \<Rightarrow> string" where
  "departureError f =
     ''Flight '' @ airline f @ '' '' @ flightCode f @ '': Departure airport '' @ [CHR 0x22]
     @ departureAirport f @ [CHR 0x22] @ '' not found in airports database''"

definition arrivalError :: "Flight \<Rightarrow> string" where
  "arrivalError f =
     ''Flight '' @ airline f @ '' '' @ flightCode f @ '': Arrival airport '' @ [CHR 0x22]
     @ arrivalAirport f @ [CHR 0x22] @ '' not found in airports database''"

text \<open>
  One iteration of the loop of \<open>buildFlightVisualizations\<close>. The field \<open>errors\<close> of the
  result is called \<open>resolutionErrors\<close> here, the name \<open>errors\<close> being taken by the parse
  result.
\<close>

definition buildStep ::
  "'n AirportsMap \<Rightarrow> CodeReplacementMap \<Rightarrow> 'n VisualizationResult \<Rightarrow> Flight
   \<Rightarrow> 'n VisualizationResult" where
  "buildStep airportsMap replacements acc f =
     (let acc1 = acc\<lparr> distinctAirports :=
                   insert (arrivalAirport f) (insert (departureAirport f) (distinctAirports acc)) \<rparr>
      in
      case getAirportByCode (departureAirport f) airportsMap replacements of
        None \<Rightarrow>
          acc1\<lparr> unresolvedAirports := insert (departureAirport f) (unresolvedAirports acc1),
                resolutionErrors := resolutionErrors acc1 @ [departureError f] \<rparr>
      | Some fromA \<Rightarrow>
          (case getAirportByCode (arrivalAirport f) airportsMap replacements of
             None \<Rightarrow>
               acc1\<lparr> unresolvedAirports := insert (arrivalAirport f) (unresolvedAirports acc1),
                     resolutionErrors := resolutionErrors acc1 @ [arrivalError f] \<rparr>
           | Some toA \<Rightarrow>
               acc1\<lparr> visualizations :=
                       visualizations acc1 @ [createFlightVisualization f fromA toA] \<rparr>))"

definition buildFlightVisualizations ::
  "Flight list \<Rightarrow> 'n AirportsMap \<Rightarrow> CodeReplacementMap \<Rightarrow> 'n VisualizationResult" where
  "buildFlightVisualizations fs airportsMap replacements =
     foldl (buildStep airportsMap replacements)
       \<lparr> visualizations = [], totalFlightsParsed = length fs, distinctAirports = {},
         resolutionErrors = [], unresolvedAirports = {} \<rparr>
       fs"

text \<open>
  The specification's notion of a code that resolves: it is a key of the airport table, or
  it is absent and the replacement table maps it to a key of the airport table.
\<close>

definition codeResolves_spec :: "'n AirportsMap \<Rightarrow> CodeReplacementMap \<Rightarrow> string \<Rightarrow> bool" where
  "codeResolves_spec airportsMap replacements code =
     (airportsMap code \<noteq> None
      \<or> (airportsMap code = None
          \<and> (case replacements code of
                None \<Rightarrow> False
              | Some newCode \<Rightarrow> airportsMap newCode \<noteq> None)))"

section \<open>Frequency colours\<close>

text \<open>
  Numbers are exact reals: the quotient and the comparisons are those of the source with
  the rounding of the engine's floating point left out.
\<close>

definition getFrequencyColor :: "real \<Rightarrow> real \<Rightarrow> string" where
  "getFrequencyColor frequency maxFrequency =
     (if maxFrequency = 0 then ''#667eea''
      else (let ratio = frequency / maxFrequency in
            if ratio \<le> 0.15 then ''#3b82f6''
            else if ratio \<le> 0.3 then ''#06b6d4''
            else if ratio \<le> 0.5 then ''#10b981''
            else if ratio \<le> 0.75 then ''#f59e0b''
            else ''#ef4444''))"

section \<open>Geo-rendering engine\<close>

text \<open>
  A \<open>Map\<close> of the source keeps its keys in insertion order: it is an association list, and
  \<open>set\<close> replaces the value of a key that is present and appends a key that is not.
\<close>

fun mapSet :: "'k \<Rightarrow> 'v \<Rightarrow> ('k \<times> 'v) list \<Rightarrow> ('k \<times> 'v) list" where
  "mapSet k v [] = [(k, v)]"
| "mapSet k v ((k', v') # rest) =
     (if k' = k then (k, v) # rest else (k', v') # mapSet k v rest)"

text \<open>\<open>airportFrequency.get(code) || 0\<close>.\<close>

definition frequencyOf :: "(string \<times> nat) list \<Rightarrow> string \<Rightarrow> nat" where
  "frequencyOf airportFrequency code =
     (case map_of airportFrequency code of None \<Rightarrow> 0 | Some c \<Rightarrow> c)"

definition countFrequency :: "'n FlightVisualizationData list \<Rightarrow> (string \<times> nat) list" where
  "countFrequency vs =
     foldl (\<lambda>airportFrequency viz.
              (let m1 = mapSet (iataCode (fromAirport viz))
                          (frequencyOf airportFrequency (iataCode (fromAirport viz)) + 1)
                          airportFrequency
               in mapSet (iataCode (toAirport viz))
                    (frequencyOf m1 (iataCode (toAirport viz)) + 1) m1))
           [] vs"

text \<open>
  \<open>Math.max(...values)\<close>; the table is empty only for an empty data set, where the value
  is not used.
\<close>

definition maxFrequencyOf :: "(string \<times> nat) list \<Rightarrow> nat" where
  "maxFrequencyOf airportFrequency = foldr max (map snd airportFrequency) 0"

definition collectAirports ::
  "'n FlightVisualizationData list \<Rightarrow> (string \<times> 'n Airport) list" where
  "collectAirports vs =
     foldl (\<lambda>airportsMap viz.
              mapSet (iataCode (toAirport viz)) (toAirport viz)
                (mapSet (iataCode (fromAirport viz)) (fromAirport viz) airportsMap))
           [] vs"

text \<open>
  The route key \<open>[from, to].sort().join('-')\<close>; the default sort compares strings code
  unit by code unit, which is the lexicographic order on \<open>string\<close>.
\<close>

definition routeKey :: "string \<Rightarrow> string \<Rightarrow> string" where
  "routeKey a b = join ''-'' (sort [a, b])"

definition routeKeyOf :: "'n FlightVisualizationData \<Rightarrow> string" where
  "routeKeyOf viz = routeKey (iataCode (fromAirport viz)) (iataCode (toAirport viz))"

definition groupRoutes ::
  "'n FlightVisualizationData list \<Rightarrow> (string \<rightharpoonup> 'n FlightVisualizationData list)" where
  "groupRoutes vs =
     foldl (\<lambda>routeFlights viz.
              routeFlights(routeKeyOf viz \<mapsto>
                (case routeFlights (routeKeyOf viz) of None \<Rightarrow> [] | Some l \<Rightarrow> l) @ [viz]))
           Map.empty vs"

text \<open>
  The path of a route comes from the geodesic library, a parameter \<open>geodesic\<close> from the two
  coordinate pairs to a list of points. A drawn segment keeps its points, the two end
  colours and its index: its colour is \<open>interpolateColor(fromColor, toColor, index / 9)\<close>,
  a function of these three. The line weight depends on the zoom level only and is left
  out.
\<close>

record 'p Segment =
  segmentPoints :: "'p list"
  segmentFromColor :: string
  segmentToColor :: string
  segmentIndex :: nat

definition segmentPointsOf :: "'p list \<Rightarrow> nat \<Rightarrow> 'p list" where
  "segmentPointsOf pathPoints i =
     (let numSegments = 10;
          segmentSize = length pathPoints div numSegments;
          startIdx = i * segmentSize;
          endIdx = (if i = numSegments - 1 then length pathPoints else (i + 1) * segmentSize)
      in take (endIdx + 1 - startIdx) (drop startIdx pathPoints))"

definition segmentsOf :: "'p list \<Rightarrow> string \<Rightarrow> string \<Rightarrow> 'p Segment list" where
  "segmentsOf pathPoints fromColor toColor =
     map (\<lambda>i. \<lparr> segmentPoints = segmentPointsOf pathPoints i, segmentFromColor = fromColor,
                segmentToColor = toColor, segmentIndex = i \<rparr>)
         (filter (\<lambda>i. \<not> length (segmentPointsOf pathPoints i) < 2) [0..<10])"

text \<open>
  What one pass of the route loop draws: the visualization whose direction is drawn, the
  two colours, the flights listed in the popup content under the outbound and under the
  return heading, the segments, and whether the popup is bound (the fifth drawn segment
  exists).
\<close>

record ('n, 'p) DrawnRoute =
  routeViz :: "'n FlightVisualizationData"
  routeFromColor :: string
  routeToColor :: string
  outboundFlights :: "'n FlightVisualizationData list"
  returnFlights :: "'n FlightVisualizationData list"
  flightSegments :: "'p Segment list"
  popupBound :: bool

definition drawRoute ::
  "('n \<times> 'n \<Rightarrow> 'n \<times> 'n \<Rightarrow> 'p list) \<Rightarrow> (string \<times> nat) list \<Rightarrow> nat
   \<Rightarrow> (string \<rightharpoonup> 'n FlightVisualizationData list)
   \<Rightarrow> 'n FlightVisualizationData \<Rightarrow> ('n, 'p) DrawnRoute" where
  "drawRoute geodesic airportFrequency maxFrequency routeFlights viz =
     (let flightsOnRoute =
            (case routeFlights (routeKeyOf viz) of None \<Rightarrow> [] | Some l \<Rightarrow> l);
          fromFreq = frequencyOf airportFrequency (iataCode (fromAirport viz));
          toFreq = frequencyOf airportFrequency (iataCode (toAirport viz));
          fromColor = getFrequencyColor (real fromFreq) (real maxFrequency);
          toColor = getFrequencyColor (real toFreq) (real maxFrequency);
          pathPoints = geodesic (coordinates (fromAirport viz)) (coordinates (toAirport viz));
          outbound = filter (\<lambda>f. iataCode (fromAirport f) = iataCode (fromAirport viz)
                                 \<and> iataCode (toAirport f) = iataCode (toAirport viz))
                            flightsOnRoute;
          return = filter (\<lambda>f. iataCode (fromAirport f) = iataCode (toAirport viz)
                               \<and> iataCode (toAirport f) = iataCode (fromAirport viz))
                          flightsOnRoute;
          segments = segmentsOf pathPoints fromColor toColor
      in \<lparr> routeViz = viz, routeFromColor = fromColor, routeToColor = toColor,
           outboundFlights = outbound, returnFlights = return,
           flightSegments = segments, popupBound = (4 < length segments) \<rparr>)"

text \<open>The route loop with its set \<open>drawnRoutes\<close> of keys already drawn.\<close>

fun drawRoutes ::
  "('n FlightVisualizationData \<Rightarrow> ('n, 'p) DrawnRoute) \<Rightarrow> 'n FlightVisualizationData list
   \<Rightarrow> string set \<Rightarrow> ('n, 'p) DrawnRoute list" where
  "drawRoutes draw [] drawnRoutes = []"
| "drawRoutes draw (viz # rest) drawnRoutes =
     (if routeKeyOf viz \<in> drawnRoutes then drawRoutes draw rest drawnRoutes
      else draw viz # drawRoutes draw rest (insert (routeKeyOf viz) drawnRoutes))"

definition renderRoutes ::
  "('n \<times> 'n \<Rightarrow> 'n \<times> 'n \<Rightarrow> 'p list) \<Rightarrow> 'n FlightVisualizationData list
   \<Rightarrow> ('n, 'p) DrawnRoute list" where
  "renderRoutes geodesic vs =
     drawRoutes
       (drawRoute geodesic (countFrequency vs) (maxFrequencyOf (countFrequency vs))
          (groupRoutes vs))
       vs {}"

text \<open>
  The state of the map component: the marker and line registries, the moving marker and
  the abort flag. A marker keeps its airport, its colour and the frequency shown in its
  popup (\<open>None\<close> for a marker without popup). \<open>stopAfter\<close> is not a variable of the source:
  it schedules the user's stop request, \<open>Some k\<close> meaning that \<open>stopAnimation\<close> is called
  while the playback is suspended in its sleep number \<open>k\<close> (from 0), \<open>None\<close> that no stop
  is pending.
\<close>

record 'n Marker =
  markerAirport :: "'n Airport"
  markerColor :: string
  markerPopup :: "nat option"

record ('n, 'p) MapState =
  markers :: "'n Marker list"
  flightLines :: "'p Segment list"
  planeMarker :: "'p option"
  animationAborted :: bool
  stopAfter :: "nat option"

definition visualizeFlights ::
  "('n \<times> 'n \<Rightarrow> 'n \<times> 'n \<Rightarrow> 'p list) \<Rightarrow> 'n FlightVisualizationData list
   \<Rightarrow> ('n, 'p) MapState \<Rightarrow> ('n, 'p) MapState" where
  "visualizeFlights geodesic vs st =
     (let st0 = st\<lparr> markers := [], flightLines := [] \<rparr> in
      if length vs = 0 then st0
      else
        (let airportsMap = collectAirports vs;
             airportFrequency = countFrequency vs;
             maxFrequency = maxFrequencyOf airportFrequency;
             st1 = st0\<lparr> flightLines :=
                          concat (map flightSegments (renderRoutes geodesic vs)) \<rparr>
         in st1\<lparr> markers :=
                   map (\<lambda>(code, airport).
                          \<lparr> markerAirport = airport,
                            markerColor = getFrequencyColor
                               (real (frequencyOf airportFrequency (iataCode airport)))
                               (real maxFrequency),
                            markerPopup = Some (frequencyOf airportFrequency (iataCode airport)) \<rparr>)
                       airportsMap \<rparr>))"

text \<open>
  The specification's words for two visualizations: they fly the same way, they fly
  opposite ways, they join the same unordered pair of airports. \<open>threeCharacterCodes\<close>
  says that the airport codes of the data set are IATA codes as far as their length
  goes: each has three characters.
\<close>

definition sameDirection :: "'n FlightVisualizationData \<Rightarrow> 'n FlightVisualizationData \<Rightarrow> bool" where
  "sameDirection f viz =
     (iataCode (fromAirport f) = iataCode (fromAirport viz)
      \<and> iataCode (toAirport f) = iataCode (toAirport viz))"

definition oppositeDirection :: "'n FlightVisualizationData \<Rightarrow> 'n FlightVisualizationData \<Rightarrow> bool" where
  "oppositeDirection f viz =
     (iataCode (fromAirport f) = iataCode (toAirport viz)
      \<and> iataCode (toAirport f) = iataCode (fromAirport viz))"

definition samePair :: "'n FlightVisualizationData \<Rightarrow> 'n FlightVisualizationData \<Rightarrow> bool" where
  "samePair f viz = (sameDirection f viz \<or> oppositeDirection f viz)"

definition threeCharacterCodes :: "'n FlightVisualizationData list \<Rightarrow> bool" where
  "threeCharacterCodes vs =
     (\<forall>viz \<in> set vs. length (iataCode (fromAirport viz)) = 3
                    \<and> length (iataCode (toAirport viz)) = 3)"

section \<open>Playback engine\<close>

definition stopAnimation ::
  "('n \<times> 'n \<Rightarrow> 'n \<times> 'n \<Rightarrow> 'p list) \<Rightarrow> 'n FlightVisualizationData list
   \<Rightarrow> ('n, 'p) MapState \<Rightarrow> ('n, 'p) MapState" where
  "stopAnimation geodesic vs st =
     visualizeFlights geodesic vs (st\<lparr> animationAborted := True, planeMarker := None \<rparr>)"

text \<open>
  \<open>await sleep(50)\<close>: the only point where the playback yields, hence the only point where
  the stop request can run.
\<close>

definition sleep ::
  "('n \<times> 'n \<Rightarrow> 'n \<times> 'n \<Rightarrow> 'p list) \<Rightarrow> 'n FlightVisualizationData list
   \<Rightarrow> ('n, 'p) MapState \<Rightarrow> ('n, 'p) MapState" where
  "sleep geodesic vs st =
     (case stopAfter st of
        None \<Rightarrow> st
      | Some 0 \<Rightarrow> stopAnimation geodesic vs (st\<lparr> stopAfter := None \<rparr>)
      | Some (Suc k) \<Rightarrow> st\<lparr> stopAfter := Some k \<rparr>)"

text \<open>The segment loop of \<open>animateFlightRoute\<close> over the indices still to come.\<close>

fun animateSegments ::
  "('n \<times> 'n \<Rightarrow> 'n \<times> 'n \<Rightarrow> 'p list) \<Rightarrow> 'n FlightVisualizationData list
   \<Rightarrow> 'p list \<Rightarrow> string \<Rightarrow> string \<Rightarrow> nat list \<Rightarrow> ('n, 'p) MapState \<Rightarrow> ('n, 'p) MapState" where
  "animateSegments geodesic vs pathPoints fromColor toColor [] st = st"
| "animateSegments geodesic vs pathPoints fromColor toColor (i # rest) st =
     (if animationAborted st then st
      else if length (segmentPointsOf pathPoints i) < 2
        then animateSegments geodesic vs pathPoints fromColor toColor rest st
      else
        (let segment = \<lparr> segmentPoints = segmentPointsOf pathPoints i,
                         segmentFromColor = fromColor, segmentToColor = toColor,
                         segmentIndex = i \<rparr>;
             st1 = st\<lparr> flightLines := flightLines st @ [segment] \<rparr>;
             st2 = st1\<lparr> planeMarker := Some (last (segmentPointsOf pathPoints i)) \<rparr>;
             st3 = sleep geodesic vs st2
         in animateSegments geodesic vs pathPoints fromColor toColor rest st3))"

definition animateFlightRoute ::
  "('n \<times> 'n \<Rightarrow> 'n \<times> 'n \<Rightarrow> 'p list) \<Rightarrow> 'n FlightVisualizationData list
   \<Rightarrow> 'n \<times> 'n \<Rightarrow> 'n \<times> 'n \<Rightarrow> string \<Rightarrow> string \<Rightarrow> ('n, 'p) MapState \<Rightarrow> ('n, 'p) MapState" where
  "animateFlightRoute geodesic vs fromCoords toCoords fromColor toColor st =
     (if animationAborted st then st
      else (animateSegments geodesic vs (geodesic fromCoords toCoords) fromColor toColor
              [0..<10] st)\<lparr> planeMarker := None \<rparr>)"

definition addAirportMarker ::
  "'n Airport \<Rightarrow> string \<Rightarrow> ('n, 'p) MapState \<Rightarrow> ('n, 'p) MapState" where
  "addAirportMarker airport color st =
     st\<lparr> markers := markers st @
            [\<lparr> markerAirport = airport, markerColor = color, markerPopup = None \<rparr>] \<rparr>"

text \<open>
  The flight loop of \<open>startAnimation\<close> with its set \<open>shownAirports\<close>. Highlighting a marker
  that is already shown changes a style class for 600 ms and nothing in the registries.
\<close>

fun animateFlights ::
  "('n \<times> 'n \<Rightarrow> 'n \<times> 'n \<Rightarrow> 'p list) \<Rightarrow> 'n FlightVisualizationData list
   \<Rightarrow> (string \<times> nat) list \<Rightarrow> nat \<Rightarrow> 'n FlightVisualizationData list \<Rightarrow> string set
   \<Rightarrow> ('n, 'p) MapState \<Rightarrow> ('n, 'p) MapState" where
  "animateFlights geodesic vs airportFrequency maxFrequency [] shownAirports st = st"
| "animateFlights geodesic vs airportFrequency maxFrequency (viz # rest) shownAirports st =
     (if animationAborted st then st
      else
        (let fromFreq = frequencyOf airportFrequency (iataCode (fromAirport viz));
             toFreq = frequencyOf airportFrequency (iataCode (toAirport viz));
             fromColor = getFrequencyColor (real fromFreq) (real maxFrequency);
             toColor = getFrequencyColor (real toFreq) (real maxFrequency);
             st1 = (if iataCode (fromAirport viz) \<notin> shownAirports
                    then addAirportMarker (fromAirport viz) fromColor st else st);
             shown1 = insert (iataCode (fromAirport viz)) shownAirports;
             st2 = animateFlightRoute geodesic vs (coordinates (fromAirport viz))
                     (coordinates (toAirport viz)) fromColor toColor st1;
             st3 = (if iataCode (toAirport viz) \<notin> shown1
                    then addAirportMarker (toAirport viz) toColor st2 else st2);
             shown2 = insert (iataCode (toAirport viz)) shown1
         in animateFlights geodesic vs airportFrequency maxFrequency rest shown2 st3))"

definition startAnimation ::
  "('n \<times> 'n \<Rightarrow> 'n \<times> 'n \<Rightarrow> 'p list) \<Rightarrow> 'n FlightVisualizationData list
   \<Rightarrow> ('n, 'p) MapState \<Rightarrow> ('n, 'p) MapState" where
  "startAnimation geodesic vs st =
     (let st0 = st\<lparr> animationAborted := False, markers := [], flightLines := [] \<rparr>;
          sortedFlights = sort_key departureTimestamp vs;
          airportFrequency = countFrequency vs;
          maxFrequency = maxFrequencyOf airportFrequency
      in animateFlights geodesic vs airportFrequency maxFrequency sortedFlights {} st0)"

section \<open>Sample data\<close>

text \<open>Small records used to run the definitions on concrete inputs.\<close>

definition sampleAirport :: "string \<Rightarrow> int \<Rightarrow> int \<Rightarrow> int Airport" where
  "sampleAirport code latitude longitude =
     \<lparr> airportId = [], ident = [], airportType = ''large_airport'', name = code,
       coordinates = (latitude, longitude), elevationFt = None, continent = [],
       isoCountry = [], isoRegion = [], municipality = [], scheduledService = True,
       icaoCode = [], iataCode = code, gpsCode = [], localCode = [] \<rparr>"

definition sampleFlight :: "string \<Rightarrow> string \<Rightarrow> string \<Rightarrow> int \<Rightarrow> Flight" where
  "sampleFlight code dep arr t =
     \<lparr> airline = ''AY'', flightCode = code, departureAirport = dep, arrivalAirport = arr,
       departureTimestampLocal = t, arrivalTimestampLocal = t + 3600000 \<rparr>"

definition sampleViz :: "string \<Rightarrow> string \<Rightarrow> string \<Rightarrow> int \<Rightarrow> int FlightVisualizationData" where
  "sampleViz code dep arr t =
     createFlightVisualization (sampleFlight code dep arr t)
       (sampleAirport dep 0 0) (sampleAirport arr 0 0)"

text \<open>A geodesic path of 51 points, numbered from 0 to 50, whatever the end points.\<close>

definition sampleGeodesic :: "int \<times> int \<Rightarrow> int \<times> int \<Rightarrow> nat list" where
  "sampleGeodesic fromCoords toCoords = [0..<51]"

definition emptyMap :: "(int, nat) MapState" where
  "emptyMap = \<lparr> markers = [], flightLines = [], planeMarker = None,
                animationAborted = False, stopAfter = None \<rparr>"

text \<open>One flight from HEL to JFK.\<close>

definition oneFlight :: "int FlightVisualizationData list" where
  "oneFlight = [sampleViz ''1'' ''HEL'' ''JFK'' 0]"

text \<open>Two flights from JFK to HEL around one flight back from HEL to JFK.\<close>

definition roundTrip :: "int FlightVisualizationData list" where
  "roundTrip =
     [sampleViz ''1'' ''JFK'' ''HEL'' 0, sampleViz ''2'' ''HEL'' ''JFK'' 1,
      sampleViz ''3'' ''JFK'' ''HEL'' 2]"

text \<open>
  A flight CSV with the six required columns, two blank lines and three data lines: a
  good row, a row with an unreadable departure time and a row without flight code. The
  sample date parser knows the three well-formed times of the file.
\<close>

definition sampleFlightsCsv :: string where
  "sampleFlightsCsv =
     ''airline,flight_code,departure_airport,arrival_airport,departure_timestamp_local,arrival_timestamp_local''
     @ [CHR 0x0A] @ [CHR 0x0A]
     @ ''Finnair,AY123,HEL,JFK,2024-01-15 12:30:00,2024-01-15 08:45:00'' @ [CHR 0x0A]
     @ ''   '' @ [CHR 0x0D, CHR 0x0A]
     @ ''Finnair,AY124,JFK,HEL,soon,2024-01-16 08:45:00'' @ [CHR 0x0A]
     @ ''Finnair,,JFK,HEL,2024-01-15 12:30:00,2024-01-16 08:45:00''"

definition sampleDate :: dateParser where
  "sampleDate =
     map_of [(''2024-01-15 12:30:00'', 1705314600000), (''2024-01-15 08:45:00'', 1705301100000),
             (''2024-01-16 08:45:00'', 1705387500000)]"

text \<open>A flight CSV without the two airport columns, with a blank line and two data lines.\<close>

definition sampleShortCsv :: string where
  "sampleShortCsv =
     ''airline,flight_code,departure_timestamp_local,arrival_timestamp_local'' @ [CHR 0x0A]
     @ ''Finnair,AY123,2024-01-15 12:30:00,2024-01-15 08:45:00'' @ [CHR 0x0A]
     @ [CHR 0x09] @ [CHR 0x0A]
     @ ''Finnair,AY124,2024-01-15 12:30:00,2024-01-16 08:45:00'' @ [CHR 0x0A]"

section \<open>Properties of the flight record parser\<close>

lemma parseFlightRows_counts:
  "successfulRows (parseFlightRows D ci i ls acc) + failedRows (parseFlightRows D ci i ls acc)
     = successfulRows acc + failedRows acc + length ls
   \<and> totalRows (parseFlightRows D ci i ls acc) = totalRows acc"
  by (induction ls arbitrary: i acc) (auto split: sum.splits)

lemma dropWhile_all: "dropWhile P xs = [] \<longleftrightarrow> (\<forall>x \<in> set xs. P x)"
  by (induction xs) auto

lemma trim_blank: "trim line = [] \<longleftrightarrow> blankLine_spec line"
proof -
  have "trim line = [] \<longleftrightarrow> (\<forall>c \<in> set (dropWhile isWhitespace line). isWhitespace c)"
    by (simp add: trim_def dropWhile_all)
  also have "\<dots> \<longleftrightarrow> dropWhile isWhitespace line = []"
  proof
    assume a: "\<forall>c \<in> set (dropWhile isWhitespace line). isWhitespace c"
    show "dropWhile isWhitespace line = []"
    proof (rule ccontr)
      assume ne: "dropWhile isWhitespace line \<noteq> []"
      then have "\<not> isWhitespace (hd (dropWhile isWhitespace line))"
        by (rule hd_dropWhile)
      moreover from ne have "hd (dropWhile isWhitespace line) \<in> set (dropWhile isWhitespace line)"
        by (rule hd_in_set)
      ultimately show False using a by blast
    qed
  qed (auto dest: set_dropWhileD)
  also have "\<dots> \<longleftrightarrow> blankLine_spec line"
    by (simp add: dropWhile_all blankLine_spec_def)
  finally show ?thesis .
qed

lemma nonBlankLines_spec_eq: "nonBlankLines csvContent = nonBlankLines_spec csvContent"
  by (simp add: nonBlankLines_def nonBlankLines_spec_def trim_blank)

text \<open>
  Claim C1. For every flight CSV, \<open>totalRows\<close> is the number of data lines, that is of the
  lines after the header that are not blank, and \<open>successfulRows + failedRows = totalRows\<close>;
  when the header lacks a required column, \<open>successfulRows = 0\<close> and
  \<open>failedRows = totalRows\<close>.
\<close>

theorem parseFlightsCsv_row_counts:
  "totalRows (parseFlightsCsv D csvContent) = length (dataLines_spec csvContent)
   \<and> successfulRows (parseFlightsCsv D csvContent) + failedRows (parseFlightsCsv D csvContent)
       = totalRows (parseFlightsCsv D csvContent)
   \<and> (nonBlankLines_spec csvContent \<noteq> []
        \<and> (\<exists>col \<in> set REQUIRED_COLUMNS.
              col \<notin> set (headersOf (hd (nonBlankLines_spec csvContent))))
      \<longrightarrow> successfulRows (parseFlightsCsv D csvContent) = 0
          \<and> failedRows (parseFlightsCsv D csvContent) = totalRows (parseFlightsCsv D csvContent))"
proof -
  have missing: "missingColumnsOf hs \<noteq> [] \<longleftrightarrow> (\<exists>col \<in> set REQUIRED_COLUMNS. col \<notin> set hs)" for hs
    by (auto simp: missingColumnsOf_def filter_empty_conv)
  have hd0: "nonBlankLines_spec csvContent ! 0 = hd (nonBlankLines_spec csvContent)"
    if "nonBlankLines_spec csvContent \<noteq> []"
    using that by (simp add: hd_conv_nth)
  show ?thesis
    unfolding dataLines_spec_def nonBlankLines_spec_eq[symmetric]
    using missing[of "headersOf (nonBlankLines csvContent ! 0)"]
    by (auto simp: parseFlightsCsv_def Let_def parseFlightRows_counts hd_conv_nth)
qed

theorem parseFlightsCsv_row_counts_witness:
  "length (split CHR 0x0A sampleFlightsCsv) = 6
   \<and> length (dataLines_spec sampleFlightsCsv) = 3
   \<and> totalRows (parseFlightsCsv sampleDate sampleFlightsCsv) = 3
   \<and> successfulRows (parseFlightsCsv sampleDate sampleFlightsCsv) = 1
   \<and> failedRows (parseFlightsCsv sampleDate sampleFlightsCsv) = 2
   \<and> ''departure_airport'' \<notin> set (headersOf (hd (nonBlankLines_spec sampleShortCsv)))
   \<and> length (split CHR 0x0A sampleShortCsv) = 5
   \<and> totalRows (parseFlightsCsv sampleDate sampleShortCsv) = 2
   \<and> successfulRows (parseFlightsCsv sampleDate sampleShortCsv) = 0
   \<and> failedRows (parseFlightsCsv sampleDate sampleShortCsv) = 2"
proof -
  note full = parseFlightsCsv_row_counts [of sampleDate sampleFlightsCsv]
  note short = parseFlightsCsv_row_counts [of sampleDate sampleShortCsv]
  have p: "length (split CHR 0x0A sampleFlightsCsv) = 6" by code_simp
  have n: "length (dataLines_spec sampleFlightsCsv) = 3" by code_simp
  have s: "successfulRows (parseFlightsCsv sampleDate sampleFlightsCsv) = 1" by code_simp
  have t: "totalRows (parseFlightsCsv sampleDate sampleFlightsCsv) = 3"
    using full[THEN conjunct1] n by (rule trans)
  have f: "failedRows (parseFlightsCsv sampleDate sampleFlightsCsv) = 2"
    using full[THEN conjunct2, THEN conjunct1] unfolding s t by arith
  have h1: "nonBlankLines_spec sampleShortCsv \<noteq> []" by code_simp
  have h2: "''departure_airport'' \<notin> set (headersOf (hd (nonBlankLines_spec sampleShortCsv)))"
    by code_simp
  have h3: "\<exists>col \<in> set REQUIRED_COLUMNS.
              col \<notin> set (headersOf (hd (nonBlankLines_spec sampleShortCsv)))"
    by code_simp
  have p': "length (split CHR 0x0A sampleShortCsv) = 5" by code_simp
  have n': "length (dataLines_spec sampleShortCsv) = 2" by code_simp
  have t': "totalRows (parseFlightsCsv sampleDate sampleShortCsv) = 2"
    using short[THEN conjunct1] n' by (rule trans)
  note sc = short[THEN conjunct2, THEN conjunct2, THEN mp, OF conjI[OF h1 h3]]
  have s': "successfulRows (parseFlightsCsv sampleDate sampleShortCsv) = 0"
    by (rule sc[THEN conjunct1])
  have f': "failedRows (parseFlightsCsv sampleDate sampleShortCsv) = 2"
    using sc[THEN conjunct2] t' by (rule trans)
  show ?thesis
    by (rule conjI p n t s f h2 p' t' s' f')+
qed

lemma sublist_join: "x \<in> set xs \<Longrightarrow> sublist x (join sep xs)"
proof (induction sep xs rule: join.induct)
  case (3 sep a b ys)
  show ?case
  proof (cases "x = a")
    case True
    then show ?thesis by (simp add: sublist_def) (metis append_Nil)
  next
    case False
    with 3 have "sublist x (join sep (b # ys))" by simp
    then show ?thesis
      by (metis join.simps(3) sublist_append_leftI sublist_order.order.trans)
  qed
qed auto

text \<open>
  Claim C7. When the header of a flight CSV lacks at least one required column,
  \<open>parseFlightsCsv\<close> returns no flight and exactly one error message, in which every
  missing column name occurs; every data row is counted as failed and none as successful.
\<close>

theorem parseFlightsCsv_missing_columns:
  assumes "nonBlankLines csvContent \<noteq> []"
    and "\<exists>col \<in> set REQUIRED_COLUMNS. col \<notin> set (headersOf (nonBlankLines csvContent ! 0))"
  shows "flights (parseFlightsCsv D csvContent) = []
    \<and> (\<exists>message. errors (parseFlightsCsv D csvContent) = [message]
          \<and> (\<forall>col \<in> set REQUIRED_COLUMNS.
                col \<notin> set (headersOf (nonBlankLines csvContent ! 0)) \<longrightarrow> sublist col message))
    \<and> successfulRows (parseFlightsCsv D csvContent) = 0
    \<and> failedRows (parseFlightsCsv D csvContent) = length (tl (nonBlankLines csvContent))
    \<and> totalRows (parseFlightsCsv D csvContent) = length (tl (nonBlankLines csvContent))"
proof -
  let ?headers = "headersOf (nonBlankLines csvContent ! 0)"
  let ?missing = "missingColumnsOf ?headers"
  from assms(2) have ne: "?missing \<noteq> []"
    by (auto simp: missingColumnsOf_def filter_empty_conv)
  have res: "parseFlightsCsv D csvContent =
      \<lparr> flights = [], errors = [''Missing required columns: '' @ join '', '' ?missing],
        totalRows = length (nonBlankLines csvContent) - 1, successfulRows = 0,
        failedRows = length (nonBlankLines csvContent) - 1 \<rparr>"
    using assms(1) ne by (simp add: parseFlightsCsv_def Let_def)
  have named: "sublist col (''Missing required columns: '' @ join '', '' ?missing)"
    if "col \<in> set REQUIRED_COLUMNS" "col \<notin> set ?headers" for col
  proof -
    from that have "col \<in> set ?missing" by (simp add: missingColumnsOf_def)
    then have "sublist col (join '', '' ?missing)" by (rule sublist_join)
    then have "sublist col (ps @ join '', '' ?missing)" for ps
      by (meson sublist_append_leftI sublist_order.order.trans)
    then show ?thesis .
  qed
  show ?thesis unfolding res using named by simp
qed

theorem parseFlightsCsv_missing_columns_witness:
  "nonBlankLines (''Airline,departure_airport,arrival_airport'' @ [CHR 0x0A]
                  @ ''AY,HEL,JFK'' @ [CHR 0x0A] @ ''AY,JFK,HEL'') \<noteq> []
   \<and> errors (parseFlightsCsv (\<lambda>s. None)
        (''Airline,departure_airport,arrival_airport'' @ [CHR 0x0A]
         @ ''AY,HEL,JFK'' @ [CHR 0x0A] @ ''AY,JFK,HEL''))
      = [''Missing required columns: flight_code, departure_timestamp_local, arrival_timestamp_local'']
   \<and> failedRows (parseFlightsCsv (\<lambda>s. None)
        (''Airline,departure_airport,arrival_airport'' @ [CHR 0x0A]
         @ ''AY,HEL,JFK'' @ [CHR 0x0A] @ ''AY,JFK,HEL'')) = 2"
proof -
  let ?csv = "''Airline,departure_airport,arrival_airport'' @ [CHR 0x0A]
              @ ''AY,HEL,JFK'' @ [CHR 0x0A] @ ''AY,JFK,HEL''"
  have h1: "nonBlankLines ?csv \<noteq> []" by code_simp
  have h2: "\<exists>col \<in> set REQUIRED_COLUMNS. col \<notin> set (headersOf (nonBlankLines ?csv ! 0))"
    by code_simp
  have e: "errors (parseFlightsCsv (\<lambda>s. None) ?csv)
      = [''Missing required columns: flight_code, departure_timestamp_local, arrival_timestamp_local'']"
    by code_simp
  have n: "length (tl (nonBlankLines ?csv)) = 2" by code_simp
  from parseFlightsCsv_missing_columns [OF h1 h2, of "\<lambda>s. None"] h1 e n show ?thesis by simp
qed

section \<open>Properties of the timestamp normalizer\<close>

lemma trim_iso_layout: "trim ''2019-07-28 20:20:00'' = ''2019-07-28 20:20:00''"
  by (simp add: trim_def isWhitespace_def)

lemma trim_dotted_layout: "trim ''28.07.2019 20:20:00'' = ''28.07.2019 20:20:00''"
  by (simp add: trim_def isWhitespace_def)

lemma dottedLayout_iso: "dottedLayout D ''2019-07-28 20:20:00'' = None"
  by (simp add: dottedLayout_def)

lemma dottedLayout_dotted: "dottedLayout D ''28.07.2019 20:20:00'' = D ''2019-07-28 20:20:00''"
  by (simp add: dottedLayout_def Let_def)

text \<open>
  Claim C6. Whatever instant the engine's date constructor gives to
  \<open>2019-07-28 20:20:00\<close>, the normalizer returns that instant for
  \<open>2019-07-28 20:20:00\<close> and for \<open>28.07.2019 20:20:00\<close>: the second string is
  rewritten into the first before it is handed to the constructor.
\<close>

theorem parseTimestamp_two_layouts:
  assumes "D ''2019-07-28 20:20:00'' = Some t"
  shows "parseTimestamp D ''2019-07-28 20:20:00'' = Some t
       \<and> parseTimestamp D ''28.07.2019 20:20:00'' = Some t"
  using assms
  by (simp add: parseTimestamp_def trim_iso_layout trim_dotted_layout
                dottedLayout_iso dottedLayout_dotted)

theorem parseTimestamp_two_layouts_witness:
  "parseTimestamp (\<lambda>s. if s = ''2019-07-28 20:20:00'' then Some 1564345200000 else None)
     ''2019-07-28 20:20:00'' = Some 1564345200000
   \<and> parseTimestamp (\<lambda>s. if s = ''2019-07-28 20:20:00'' then Some 1564345200000 else None)
     ''28.07.2019 20:20:00'' = Some 1564345200000"
  using parseTimestamp_two_layouts
    [of "\<lambda>s. if s = ''2019-07-28 20:20:00'' then Some 1564345200000 else None" 1564345200000]
  by simp

section \<open>Properties of the airport reference parser\<close>

lemma fold_upd_None:
  "m k = None \<Longrightarrow> k \<notin> fst ` set xs \<Longrightarrow>
   fold (\<lambda>(header, index) columnIndex. columnIndex(header \<mapsto> index)) xs m k = None"
  by (induction xs arbitrary: m) (auto split: prod.splits)

lemma columnIndexOf_absent: "k \<notin> set headers \<Longrightarrow> columnIndexOf headers k = None"
  unfolding columnIndexOf_def
  by (rule fold_upd_None) (auto dest: set_zip_leftD)

lemma parseNumber_empty: "parseNumber pf [] = None"
  by (simp add: parseNumber_def)

lemma parseAirportRow_skip_iff:
  "parseAirportRow pf ci line = None \<longleftrightarrow>
     (str (field ci (parseCsvLine line) ''iata_code'') = []
      \<or> parseNumber pf (str (field ci (parseCsvLine line) ''latitude_deg'')) = None
      \<or> parseNumber pf (str (field ci (parseCsvLine line) ''longitude_deg'')) = None)"
  unfolding parseAirportRow_def Let_def
  by (simp split: option.split)

lemma field_absent: "ci k = None \<Longrightarrow> str (field ci values k) = []"
  by (simp add: field_def str_def)

lemma parseAirportRow_absent_column:
  assumes "ci ''iata_code'' = None \<or> ci ''latitude_deg'' = None \<or> ci ''longitude_deg'' = None"
  shows "parseAirportRow pf ci line = None"
  unfolding parseAirportRow_skip_iff
  using assms field_absent[of ci] parseNumber_empty[of pf] by metis

lemma parseAirportRows_all_skipped:
  "(\<And>line. parseAirportRow pf ci line = None) \<Longrightarrow> parseAirportRows pf ci ls m = m"
  by (induction ls arbitrary: m) auto

text \<open>
  Claim C10. When the header of the airports CSV lacks \<open>iata_code\<close>, \<open>latitude_deg\<close> or
  \<open>longitude_deg\<close>, the lookup of that column is absent for every data row, every row is
  skipped, and the parser returns the empty table; it has no error channel. (An empty
  file gives the empty table as well.)
\<close>

theorem parseAirportsCsv_missing_column:
  assumes "''iata_code'' \<notin> set (headersOf (nonBlankLines csvContent ! 0))
         \<or> ''latitude_deg'' \<notin> set (headersOf (nonBlankLines csvContent ! 0))
         \<or> ''longitude_deg'' \<notin> set (headersOf (nonBlankLines csvContent ! 0))"
  shows "parseAirportsCsv pf csvContent = Map.empty
       \<and> (\<forall>line. parseAirportRow pf (columnIndexOf (headersOf (nonBlankLines csvContent ! 0))) line = None)"
proof -
  let ?ci = "columnIndexOf (headersOf (nonBlankLines csvContent ! 0))"
  from assms have "?ci ''iata_code'' = None \<or> ?ci ''latitude_deg'' = None
           \<or> ?ci ''longitude_deg'' = None"
    by (auto simp: columnIndexOf_absent)
  then have skip: "parseAirportRow pf ?ci line = None" for line
    by (rule parseAirportRow_absent_column)
  then have "parseAirportRows pf ?ci ls Map.empty = Map.empty" for ls
    by (rule parseAirportRows_all_skipped)
  with skip show ?thesis by (simp add: parseAirportsCsv_def Let_def)
qed

lemma parseAirportRows_lookup:
  "parseAirportRows pf ci ls m code =
     (case filter (\<lambda>a. iataCode a = code) (List.map_filter (parseAirportRow pf ci) ls) of
        [] \<Rightarrow> m code
      | a # as \<Rightarrow> Some (last (a # as)))"
proof (induction ls arbitrary: m)
  case Nil
  then show ?case by (simp add: List.map_filter_simps)
next
  case (Cons l ls)
  show ?case
  proof (cases "parseAirportRow pf ci l")
    case None
    then show ?thesis by (simp add: Cons.IH List.map_filter_simps)
  next
    case (Some a)
    then show ?thesis
      by (simp add: Cons.IH List.map_filter_simps split: list.splits)
  qed
qed

theorem parseAirportsCsv_missing_column_witness:
  "''latitude_deg'' \<notin> set (headersOf (nonBlankLines
       (''iata_code,lat,longitude_deg'' @ [CHR 0x0A] @ ''HEL,60.3,24.9'') ! 0))
   \<and> parseAirportsCsv (map_of [(''60.3'', 603::int), (''24.9'', 249)])
       (''iata_code,lat,longitude_deg'' @ [CHR 0x0A] @ ''HEL,60.3,24.9'') = Map.empty"
proof -
  let ?csv = "''iata_code,lat,longitude_deg'' @ [CHR 0x0A] @ ''HEL,60.3,24.9''"
  have h: "''latitude_deg'' \<notin> set (headersOf (nonBlankLines ?csv ! 0))" by code_simp
  then have "''iata_code'' \<notin> set (headersOf (nonBlankLines ?csv ! 0))
         \<or> ''latitude_deg'' \<notin> set (headersOf (nonBlankLines ?csv ! 0))
         \<or> ''longitude_deg'' \<notin> set (headersOf (nonBlankLines ?csv ! 0))" by blast
  from parseAirportsCsv_missing_column [OF this, of "map_of [(''60.3'', 603::int), (''24.9'', 249)]"] h show ?thesis by blast
qed

lemma parseAirportRows_append:
  "parseAirportRows pf ci (xs @ ys) m = parseAirportRows pf ci ys (parseAirportRows pf ci xs m)"
  by (induction xs arbitrary: m) (auto split: option.splits)

lemma parseAirportRows_drop_skipped:
  "parseAirportRow pf ci line = None \<Longrightarrow>
   parseAirportRows pf ci (before @ line # after) m = parseAirportRows pf ci (before @ after) m"
  by (simp add: parseAirportRows_append)

lemma parseAirportsCsv_lookup:
  "parseAirportsCsv pf csvContent code =
     (case filter (\<lambda>a. iataCode a = code)
             (List.map_filter
                (parseAirportRow pf (columnIndexOf (headersOf (nonBlankLines csvContent ! 0))))
                (tl (nonBlankLines csvContent))) of
        [] \<Rightarrow> None
      | a # as \<Rightarrow> Some (last (a # as)))"
  by (cases "nonBlankLines csvContent")
     (simp_all add: parseAirportsCsv_def Let_def parseAirportRows_lookup List.map_filter_simps)

lemma parseAirportsCsv_key:
  assumes "parseAirportsCsv pf csvContent code = Some a"
  shows "iataCode a = code"
proof -
  let ?as = "filter (\<lambda>a. iataCode a = code)
             (List.map_filter
                (parseAirportRow pf (columnIndexOf (headersOf (nonBlankLines csvContent ! 0))))
                (tl (nonBlankLines csvContent)))"
  from assms have ne: "?as \<noteq> []" and a: "a = last ?as"
    unfolding parseAirportsCsv_lookup by (auto split: list.splits)
  from ne have "last ?as \<in> set ?as" by (rule last_in_set)
  with a show ?thesis by simp
qed

text \<open>
  Claim C8. A data row is skipped exactly when its IATA cell is blank or its latitude or
  longitude does not parse as a number, and a skipped row leaves no trace: the table is
  the one obtained without that row. The table holds, for each code, the airport of the
  last row that is not skipped and carries that code, and every entry is stored under
  its own IATA code.
\<close>

theorem parseAirportsCsv_skip_and_overwrite:
  "(parseAirportRow pf ci line = None \<longleftrightarrow>
      (str (field ci (parseCsvLine line) ''iata_code'') = []
       \<or> parseNumber pf (str (field ci (parseCsvLine line) ''latitude_deg'')) = None
       \<or> parseNumber pf (str (field ci (parseCsvLine line) ''longitude_deg'')) = None))
   \<and> (parseAirportRow pf ci line = None \<longrightarrow>
        parseAirportRows pf ci (before @ line # after) m = parseAirportRows pf ci (before @ after) m)
   \<and> parseAirportsCsv pf csvContent code =
       (case filter (\<lambda>a. iataCode a = code)
               (List.map_filter
                  (parseAirportRow pf (columnIndexOf (headersOf (nonBlankLines csvContent ! 0))))
                  (tl (nonBlankLines csvContent))) of
          [] \<Rightarrow> None
        | a # as \<Rightarrow> Some (last (a # as)))
   \<and> (\<forall>a. parseAirportsCsv pf csvContent code = Some a \<longrightarrow> iataCode a = code)"
  using parseAirportRow_skip_iff[of pf ci line] parseAirportRows_drop_skipped[of pf ci line before after m]
    parseAirportsCsv_lookup[of pf csvContent code] parseAirportsCsv_key[of pf csvContent code]
  by blast

theorem parseAirportsCsv_skip_and_overwrite_witness:
  "parseAirportRow (map_of [(''60.3'', 603::int), (''24.9'', 249), (''61'', 610), (''25'', 250)])
     (columnIndexOf [''iata_code'', ''latitude_deg'', ''longitude_deg'']) '',60.3,24.9'' = None
   \<and> map_option coordinates
        (parseAirportsCsv (map_of [(''60.3'', 603::int), (''24.9'', 249), (''61'', 610), (''25'', 250)])
          (''iata_code,latitude_deg,longitude_deg'' @ [CHR 0x0A] @ ''HEL,60.3,24.9'' @ [CHR 0x0A]
           @ '',60.3,24.9'' @ [CHR 0x0A] @ ''JFK,north,25'' @ [CHR 0x0A] @ ''HEL,61,25'')
          ''HEL'') = Some (610, 250)
   \<and> map_option iataCode
        (parseAirportsCsv (map_of [(''60.3'', 603::int), (''24.9'', 249), (''61'', 610), (''25'', 250)])
          (''iata_code,latitude_deg,longitude_deg'' @ [CHR 0x0A] @ ''HEL,60.3,24.9'' @ [CHR 0x0A]
           @ '',60.3,24.9'' @ [CHR 0x0A] @ ''JFK,north,25'' @ [CHR 0x0A] @ ''HEL,61,25'')
          ''HEL'') = Some ''HEL''"
proof -
  let ?pf = "map_of [(''60.3'', 603::int), (''24.9'', 249), (''61'', 610), (''25'', 250)]"
  let ?csv = "''iata_code,latitude_deg,longitude_deg'' @ [CHR 0x0A] @ ''HEL,60.3,24.9'' @ [CHR 0x0A]
           @ '',60.3,24.9'' @ [CHR 0x0A] @ ''JFK,north,25'' @ [CHR 0x0A] @ ''HEL,61,25''"
  let ?ci = "columnIndexOf [''iata_code'', ''latitude_deg'', ''longitude_deg'']"
  note T = parseAirportsCsv_skip_and_overwrite [of ?pf ?ci "'',60.3,24.9''" "[]" "[]" Map.empty ?csv "''HEL''"]
  have blank: "str (field ?ci (parseCsvLine '',60.3,24.9'') ''iata_code'') = []"
    by code_simp
  have skipped: "parseAirportRow ?pf ?ci '',60.3,24.9'' = None"
    by (rule T[THEN conjunct1, THEN iffD2, OF disjI1, OF blank])
  have c: "map_option coordinates (parseAirportsCsv ?pf ?csv ''HEL'') = Some (610, 250)"
    by code_simp
  then obtain a where a: "parseAirportsCsv ?pf ?csv ''HEL'' = Some a"
    by (cases "parseAirportsCsv ?pf ?csv ''HEL''") simp_all
  have "iataCode a = ''HEL''"
    by (rule T[THEN conjunct2, THEN conjunct2, THEN conjunct2, rule_format, OF a])
  then have k: "map_option iataCode (parseAirportsCsv ?pf ?csv ''HEL'') = Some ''HEL''"
    by (simp only: a option.map)
  from skipped c k show ?thesis by (intro conjI)
qed

section \<open>Properties of the visualization builder\<close>

lemma getAirportByCode_resolves:
  "getAirportByCode code am rp \<noteq> None \<longleftrightarrow> codeResolves_spec am rp code"
  by (auto simp: getAirportByCode_def codeResolves_spec_def split: option.splits)

lemma buildStep_visualizations:
  "visualizations (buildStep am rp acc f) =
     visualizations acc @
     (case (getAirportByCode (departureAirport f) am rp, getAirportByCode (arrivalAirport f) am rp) of
        (Some fromA, Some toA) \<Rightarrow> [createFlightVisualization f fromA toA]
      | _ \<Rightarrow> [])"
  by (simp add: buildStep_def Let_def split: option.splits)

lemma buildStep_flights:
  "map flight (visualizations (buildStep am rp acc f)) =
     map flight (visualizations acc) @
     (if codeResolves_spec am rp (departureAirport f) \<and> codeResolves_spec am rp (arrivalAirport f)
      then [f] else [])"
  unfolding buildStep_visualizations getAirportByCode_resolves[symmetric]
  by (auto simp: createFlightVisualization_def split: option.splits)

lemma foldl_buildStep_flights:
  "map flight (visualizations (foldl (buildStep am rp) acc fs)) =
     map flight (visualizations acc) @
     filter (\<lambda>f. codeResolves_spec am rp (departureAirport f)
                 \<and> codeResolves_spec am rp (arrivalAirport f)) fs"
  by (induction fs arbitrary: acc) (simp_all add: buildStep_flights)

text \<open>
  Claim C2. The flights that produce a visualization are, in input order, exactly the
  flights whose departure and arrival codes both resolve, where a code resolves when it
  is a key of the airport table, or is absent and the replacement table maps it to a key
  of the airport table; this is what \<open>getAirportByCode\<close> decides.
\<close>

theorem buildFlightVisualizations_iff_resolved:
  "map flight (visualizations (buildFlightVisualizations fs am rp)) =
     filter (\<lambda>f. codeResolves_spec am rp (departureAirport f)
                 \<and> codeResolves_spec am rp (arrivalAirport f)) fs
   \<and> (\<forall>code. getAirportByCode code am rp \<noteq> None \<longleftrightarrow> codeResolves_spec am rp code)"
  using getAirportByCode_resolves[of _ am rp]
  by (simp only: buildFlightVisualizations_def foldl_buildStep_flights) simp

theorem buildFlightVisualizations_iff_resolved_witness:
  "map flight (visualizations (buildFlightVisualizations
      [sampleFlight ''1'' ''HEL'' ''JFK'' 0, sampleFlight ''2'' ''HEL'' ''ZZZ'' 1,
       sampleFlight ''3'' ''IDL'' ''HEL'' 2]
      [''HEL'' \<mapsto> sampleAirport ''HEL'' 60 25, ''JFK'' \<mapsto> sampleAirport ''JFK'' 41 (-74)]
      [''IDL'' \<mapsto> ''JFK'']))
   = [sampleFlight ''1'' ''HEL'' ''JFK'' 0, sampleFlight ''3'' ''IDL'' ''HEL'' 2]"
proof -
  let ?am = "[''HEL'' \<mapsto> sampleAirport ''HEL'' 60 25, ''JFK'' \<mapsto> sampleAirport ''JFK'' 41 (-74)]"
  let ?rp = "[''IDL'' \<mapsto> ''JFK'']"
  let ?fs = "[sampleFlight ''1'' ''HEL'' ''JFK'' 0, sampleFlight ''2'' ''HEL'' ''ZZZ'' 1,
       sampleFlight ''3'' ''IDL'' ''HEL'' 2]"
  have e: "filter (\<lambda>f. codeResolves_spec ?am ?rp (departureAirport f)
                 \<and> codeResolves_spec ?am ?rp (arrivalAirport f)) ?fs
           = [sampleFlight ''1'' ''HEL'' ''JFK'' 0, sampleFlight ''3'' ''IDL'' ''HEL'' 2]"
    by (simp add: codeResolves_spec_def sampleFlight_def)
  show ?thesis
    by (rule trans [OF buildFlightVisualizations_iff_resolved [of ?fs ?am ?rp, THEN conjunct1] e])
qed

lemma buildStep_count:
  "length (resolutionErrors (buildStep am rp acc f)) + length (visualizations (buildStep am rp acc f))
   = length (resolutionErrors acc) + length (visualizations acc) + 1"
  by (simp add: buildStep_def Let_def split: option.splits)

lemma foldl_buildStep_count:
  "length (resolutionErrors (foldl (buildStep am rp) acc fs))
     + length (visualizations (foldl (buildStep am rp) acc fs))
   = length (resolutionErrors acc) + length (visualizations acc) + length fs"
  by (induction fs arbitrary: acc) (simp_all add: buildStep_count)

lemma buildStep_departure_unresolved:
  "getAirportByCode (departureAirport f) am rp = None \<Longrightarrow>
   buildStep am rp acc f =
     acc\<lparr> distinctAirports :=
            insert (arrivalAirport f) (insert (departureAirport f) (distinctAirports acc)),
          unresolvedAirports := insert (departureAirport f) (unresolvedAirports acc),
          resolutionErrors := resolutionErrors acc @ [departureError f] \<rparr>"
  by (simp add: buildStep_def Let_def)

text \<open>
  Claim C9. When the departure code of a flight does not resolve, the iteration stops
  there: it pushes the departure error only, adds the departure code only to
  \<open>unresolvedAirports\<close>, adds both codes to \<open>distinctAirports\<close>, and the result does not
  depend on the arrival code being resolvable. An iteration pushes at most one error, so
  over a whole run the errors and the visualizations together number the flights.
\<close>

theorem buildStep_departure_unresolved_only:
  "(getAirportByCode (departureAirport f) am rp = None \<longrightarrow>
      buildStep am rp acc f =
        acc\<lparr> distinctAirports :=
               insert (arrivalAirport f) (insert (departureAirport f) (distinctAirports acc)),
             unresolvedAirports := insert (departureAirport f) (unresolvedAirports acc),
             resolutionErrors := resolutionErrors acc @ [departureError f] \<rparr>)
   \<and> length (resolutionErrors (buildStep am rp acc f)) \<le> length (resolutionErrors acc) + 1
   \<and> length (resolutionErrors (buildFlightVisualizations fs am rp))
       + length (visualizations (buildFlightVisualizations fs am rp)) = length fs"
proof (intro conjI impI)
  show "length (resolutionErrors (buildStep am rp acc f)) \<le> length (resolutionErrors acc) + 1"
    by (simp add: buildStep_def Let_def split: option.splits)
  show "length (resolutionErrors (buildFlightVisualizations fs am rp))
       + length (visualizations (buildFlightVisualizations fs am rp)) = length fs"
    by (simp add: buildFlightVisualizations_def foldl_buildStep_count)
qed (rule buildStep_departure_unresolved)

theorem buildStep_departure_unresolved_only_witness:
  "getAirportByCode ''ZZZ''
     [''HEL'' \<mapsto> sampleAirport ''HEL'' 60 25] Map.empty = None
   \<and> unresolvedAirports
       (buildFlightVisualizations [sampleFlight ''7'' ''ZZZ'' ''YYY'' 0]
          [''HEL'' \<mapsto> sampleAirport ''HEL'' 60 25] Map.empty) = {''ZZZ''}
   \<and> distinctAirports
       (buildFlightVisualizations [sampleFlight ''7'' ''ZZZ'' ''YYY'' 0]
          [''HEL'' \<mapsto> sampleAirport ''HEL'' 60 25] Map.empty) = {''YYY'', ''ZZZ''}
   \<and> resolutionErrors
       (buildFlightVisualizations [sampleFlight ''7'' ''ZZZ'' ''YYY'' 0]
          [''HEL'' \<mapsto> sampleAirport ''HEL'' 60 25] Map.empty)
       = [departureError (sampleFlight ''7'' ''ZZZ'' ''YYY'' 0)]"
proof -
  let ?am = "[''HEL'' \<mapsto> sampleAirport ''HEL'' 60 25]"
  let ?f = "sampleFlight ''7'' ''ZZZ'' ''YYY'' 0"
  let ?acc = "\<lparr> visualizations = [], totalFlightsParsed = 1, distinctAirports = {},
         resolutionErrors = [], unresolvedAirports = {} \<rparr> :: int VisualizationResult"
  have dep: "departureAirport ?f = ''ZZZ''" and arr: "arrivalAirport ?f = ''YYY''"
    by (simp_all add: sampleFlight_def)
  have h: "getAirportByCode ''ZZZ'' ?am Map.empty = None"
    by (simp add: getAirportByCode_def)
  then have h': "getAirportByCode (departureAirport ?f) ?am Map.empty = None"
    by (simp only: dep)
  have run: "buildFlightVisualizations [?f] ?am Map.empty = buildStep ?am Map.empty ?acc ?f"
    by (simp add: buildFlightVisualizations_def)
  note step = buildStep_departure_unresolved_only [of ?f ?am Map.empty ?acc "[]", THEN conjunct1, rule_format, OF h']
  show ?thesis
    unfolding run step using h by (simp add: dep arr)
qed

section \<open>Properties of the frequency colours\<close>

lemma getFrequencyColor_ratio:
  "m \<noteq> 0 \<Longrightarrow> getFrequencyColor f m =
     (if f / m \<le> 0.15 then ''#3b82f6''
      else if f / m \<le> 0.3 then ''#06b6d4''
      else if f / m \<le> 0.5 then ''#10b981''
      else if f / m \<le> 0.75 then ''#f59e0b''
      else ''#ef4444'')"
  unfolding getFrequencyColor_def Let_def by (simp only: if_False)

text \<open>
  Claim C3. For a frequency count and a positive maximum, the colour is blue
  (\<open>#3b82f6\<close>) when count/max is at most 0.15, cyan (\<open>#06b6d4\<close>) when at most 0.3, green
  (\<open>#10b981\<close>) when at most 0.5, orange (\<open>#f59e0b\<close>) when at most 0.75, and red
  (\<open>#ef4444\<close>) otherwise; the ratio 0.15 itself is blue and 0.151 is cyan. With a maximum
  of 0 every input gets the default colour \<open>#667eea\<close>.
\<close>

theorem getFrequencyColor_buckets:
  fixes frequency maxFrequency :: nat
  assumes "0 < maxFrequency"
  shows "getFrequencyColor (real frequency) (real maxFrequency) =
     (if 20 * frequency \<le> 3 * maxFrequency then ''#3b82f6''
      else if 10 * frequency \<le> 3 * maxFrequency then ''#06b6d4''
      else if 2 * frequency \<le> maxFrequency then ''#10b981''
      else if 4 * frequency \<le> 3 * maxFrequency then ''#f59e0b''
      else ''#ef4444'')
   \<and> getFrequencyColor 0.15 1 = ''#3b82f6''
   \<and> getFrequencyColor 0.151 1 = ''#06b6d4''
   \<and> getFrequencyColor x 0 = ''#667eea''"
proof (intro conjI)
  have m: "0 < real maxFrequency" and m0: "real maxFrequency \<noteq> 0" using assms by simp_all
  have a: "real frequency / real maxFrequency \<le> 0.15 \<longleftrightarrow> 20 * frequency \<le> 3 * maxFrequency"
    using m by (simp add: field_simps) linarith
  have b: "real frequency / real maxFrequency \<le> 0.3 \<longleftrightarrow> 10 * frequency \<le> 3 * maxFrequency"
    using m by (simp add: field_simps) linarith
  have c: "real frequency / real maxFrequency \<le> 0.5 \<longleftrightarrow> 2 * frequency \<le> maxFrequency"
    using m by (simp add: field_simps) linarith
  have d: "real frequency / real maxFrequency \<le> 0.75 \<longleftrightarrow> 4 * frequency \<le> 3 * maxFrequency"
    using m by (simp add: field_simps) linarith
  show "getFrequencyColor (real frequency) (real maxFrequency) =
     (if 20 * frequency \<le> 3 * maxFrequency then ''#3b82f6''
      else if 10 * frequency \<le> 3 * maxFrequency then ''#06b6d4''
      else if 2 * frequency \<le> maxFrequency then ''#10b981''
      else if 4 * frequency \<le> 3 * maxFrequency then ''#f59e0b''
      else ''#ef4444'')"
    unfolding getFrequencyColor_ratio[OF m0] a b c d ..
  show "getFrequencyColor 0.15 1 = ''#3b82f6''"
    by (simp add: getFrequencyColor_def)
  show "getFrequencyColor 0.151 1 = ''#06b6d4''"
    by (simp add: getFrequencyColor_def)
  show "getFrequencyColor x 0 = ''#667eea''"
    by (simp add: getFrequencyColor_def)
qed

theorem getFrequencyColor_buckets_witness:
  "(0::nat) < 20 \<and> getFrequencyColor (real (3::nat)) (real (20::nat)) = ''#3b82f6''"
  using getFrequencyColor_buckets [of 20 3] by simp

section \<open>Properties of the geo-rendering engine\<close>

lemma routeKey_eq: "routeKey a b = (if a \<le> b then a @ ''-'' @ b else b @ ''-'' @ a)"
  by (simp add: routeKey_def)

lemma routeKey_sym: "routeKey a b = routeKey b a"
  by (auto simp: routeKey_eq)

lemma routeKey_inj:
  assumes "routeKey a b = routeKey c d"
    and "length a = n" "length b = n" "length c = n" "length d = n"
  shows "(a = c \<and> b = d) \<or> (a = d \<and> b = c)"
  using assms by (auto simp: routeKey_eq split: if_splits)

lemma sameDirection_key: "sameDirection f viz \<Longrightarrow> routeKeyOf f = routeKeyOf viz"
  by (simp add: sameDirection_def routeKeyOf_def)

lemma oppositeDirection_key: "oppositeDirection f viz \<Longrightarrow> routeKeyOf f = routeKeyOf viz"
  by (simp add: oppositeDirection_def routeKeyOf_def routeKey_sym)

lemma samePair_key: "samePair f viz \<Longrightarrow> routeKeyOf f = routeKeyOf viz"
  using sameDirection_key oppositeDirection_key by (auto simp: samePair_def)

lemma key_samePair:
  assumes "threeCharacterCodes vs" "f \<in> set vs" "viz \<in> set vs" "routeKeyOf f = routeKeyOf viz"
  shows "samePair f viz"
proof -
  from assms(1,2) have f: "length (iataCode (fromAirport f)) = 3"
      "length (iataCode (toAirport f)) = 3"
    by (auto simp: threeCharacterCodes_def)
  from assms(1,3) have v: "length (iataCode (fromAirport viz)) = 3"
      "length (iataCode (toAirport viz)) = 3"
    by (auto simp: threeCharacterCodes_def)
  from assms(4) have "routeKey (iataCode (fromAirport f)) (iataCode (toAirport f))
      = routeKey (iataCode (fromAirport viz)) (iataCode (toAirport viz))"
    by (simp add: routeKeyOf_def)
  from routeKey_inj[OF this f v] show ?thesis
    by (simp add: samePair_def sameDirection_def oppositeDirection_def)
qed

lemma groupRoutes_acc:
  "(case foldl (\<lambda>routeFlights viz.
              routeFlights(routeKeyOf viz \<mapsto>
                (case routeFlights (routeKeyOf viz) of None \<Rightarrow> [] | Some l \<Rightarrow> l) @ [viz]))
           m vs k of None \<Rightarrow> [] | Some l \<Rightarrow> l)
   = (case m k of None \<Rightarrow> [] | Some l \<Rightarrow> l) @ filter (\<lambda>u. routeKeyOf u = k) vs"
  by (induction vs arbitrary: m) auto

lemma groupRoutes_lookup:
  "(case groupRoutes vs k of None \<Rightarrow> [] | Some l \<Rightarrow> l) = filter (\<lambda>u. routeKeyOf u = k) vs"
  unfolding groupRoutes_def by (simp add: groupRoutes_acc)

lemma drawRoutes_filter:
  assumes "\<And>v. routeViz (draw v) = v"
  shows "filter (\<lambda>r. routeKeyOf (routeViz r) = k) (drawRoutes draw vs D) =
     (if k \<in> D then []
      else case find (\<lambda>u. routeKeyOf u = k) vs of None \<Rightarrow> [] | Some u \<Rightarrow> [draw u])"
proof (induction vs arbitrary: D)
  case Nil
  then show ?case by simp
next
  case (Cons viz rest)
  show ?case
  proof (cases "routeKeyOf viz \<in> D")
    case True
    then show ?thesis by (auto simp: Cons.IH)
  next
    case False
    then show ?thesis by (auto simp: Cons.IH assms)
  qed
qed

lemma drawRoutes_subset:
  assumes "\<And>v. routeViz (draw v) = v"
  shows "routeViz ` set (drawRoutes draw vs D) \<subseteq> set vs"
  by (induction vs arbitrary: D) (auto simp: assms)

lemma drawRoute_viz: "routeViz (drawRoute g fr mx rf v) = v"
  by (simp add: drawRoute_def Let_def)

lemma drawRoute_outbound:
  "outboundFlights (drawRoute g fr mx (groupRoutes vs) v) = filter (\<lambda>f. sameDirection f v) vs"
proof -
  have "outboundFlights (drawRoute g fr mx (groupRoutes vs) v)
      = filter (\<lambda>f. sameDirection f v) (filter (\<lambda>u. routeKeyOf u = routeKeyOf v) vs)"
    by (simp add: drawRoute_def Let_def groupRoutes_lookup sameDirection_def)
  also have "\<dots> = filter (\<lambda>f. sameDirection f v) vs"
    by (auto simp: sameDirection_key intro: filter_cong)
  finally show ?thesis .
qed

lemma drawRoute_return:
  "returnFlights (drawRoute g fr mx (groupRoutes vs) v) = filter (\<lambda>f. oppositeDirection f v) vs"
proof -
  have "returnFlights (drawRoute g fr mx (groupRoutes vs) v)
      = filter (\<lambda>f. oppositeDirection f v) (filter (\<lambda>u. routeKeyOf u = routeKeyOf v) vs)"
    by (simp add: drawRoute_def Let_def groupRoutes_lookup oppositeDirection_def)
  also have "\<dots> = filter (\<lambda>f. oppositeDirection f v) vs"
    by (auto simp: oppositeDirection_key intro: filter_cong)
  finally show ?thesis .
qed

lemma drawRoute_segments:
  "flightSegments (drawRoute g fr mx rf v) =
     segmentsOf (g (coordinates (fromAirport v)) (coordinates (toAirport v)))
       (routeFromColor (drawRoute g fr mx rf v)) (routeToColor (drawRoute g fr mx rf v))"
  by (simp add: drawRoute_def Let_def)

lemma renderRoutes_by_key:
  "filter (\<lambda>r. routeKeyOf (routeViz r) = k) (renderRoutes g vs) =
     (case find (\<lambda>u. routeKeyOf u = k) vs of
        None \<Rightarrow> []
      | Some u \<Rightarrow> [drawRoute g (countFrequency vs) (maxFrequencyOf (countFrequency vs))
                     (groupRoutes vs) u])"
  unfolding renderRoutes_def
  by (subst drawRoutes_filter) (simp_all add: drawRoute_viz)

lemma renderRoutes_subset: "routeViz ` set (renderRoutes g vs) \<subseteq> set vs"
  unfolding renderRoutes_def by (rule drawRoutes_subset) (rule drawRoute_viz)

lemma segmentPointsOf_length:
  assumes "10 \<le> length pathPoints" "i < 9"
  shows "length (segmentPointsOf pathPoints i) = length pathPoints div 10 + 1"
proof -
  let ?n = "length pathPoints" and ?s = "length pathPoints div 10"
  have s: "10 * ?s \<le> ?n" by simp
  have "i * ?s + ?s \<le> 9 * ?s" using assms(2)
    by (metis Suc_leI add.commute mult_Suc mult_le_mono1)
  with s have "i * ?s + ?s + 1 \<le> ?n" using assms(1) by linarith
  then show ?thesis using assms(2)
    by (simp add: segmentPointsOf_def Let_def)
qed

lemma segmentPointsOf_sublist: "sublist (segmentPointsOf pathPoints i) pathPoints"
  unfolding segmentPointsOf_def Let_def
  by (meson sublist_drop sublist_take sublist_order.order.trans)

lemma segmentsOf_member:
  assumes "s \<in> set (segmentsOf pathPoints fromColor toColor)"
  shows "2 \<le> length (segmentPoints s) \<and> sublist (segmentPoints s) pathPoints
       \<and> segmentFromColor s = fromColor \<and> segmentToColor s = toColor"
  using assms by (auto simp: segmentsOf_def segmentPointsOf_sublist)

lemma segmentsOf_length:
  assumes "10 \<le> length pathPoints"
  shows "9 \<le> length (segmentsOf pathPoints fromColor toColor)"
proof -
  let ?P = "\<lambda>i. \<not> length (segmentPointsOf pathPoints i) < 2"
  have "?P i" if "i < 9" for i
    using segmentPointsOf_length[OF assms that] assms by simp
  then have "filter ?P [0..<9] = [0..<9]" by (simp add: filter_id_conv)
  moreover have "[0..<10] = [0..<9] @ [9::nat]" by (simp add: upt_rec)
  ultimately have "length (filter ?P [0..<10]) \<ge> length [0..<9::nat]"
    by (simp del: upt_Suc)
  then show ?thesis by (simp add: segmentsOf_def)
qed

lemma segmentsOf_hd:
  assumes "10 \<le> length pathPoints"
  shows "hd (segmentPoints (hd (segmentsOf pathPoints fromColor toColor))) = hd pathPoints"
proof -
  let ?P = "\<lambda>i. \<not> length (segmentPointsOf pathPoints i) < 2"
  have P0: "?P 0" using segmentPointsOf_length[OF assms, of 0] assms by simp
  have "[0..<10] = (0::nat) # [1..<10]" by (simp add: upt_rec)
  then have "filter ?P [0..<10] = 0 # filter ?P [1..<10]" using P0 by simp
  then have "segmentPoints (hd (segmentsOf pathPoints fromColor toColor))
      = segmentPointsOf pathPoints 0"
    by (simp add: segmentsOf_def)
  also have "hd \<dots> = hd pathPoints"
    using assms by (simp add: segmentPointsOf_def Let_def hd_take)
  finally show ?thesis .
qed

lemma segmentsOf_last:
  assumes "10 \<le> length pathPoints"
  shows "last (segmentPoints (last (segmentsOf pathPoints fromColor toColor))) = last pathPoints"
proof -
  let ?n = "length pathPoints" and ?s = "length pathPoints div 10"
  let ?P = "\<lambda>i. \<not> length (segmentPointsOf pathPoints i) < 2"
  let ?mk = "\<lambda>i. \<lparr> segmentPoints = segmentPointsOf pathPoints i, segmentFromColor = fromColor,
                segmentToColor = toColor, segmentIndex = i \<rparr>"
  have s1: "1 \<le> ?s" and s10: "10 * ?s \<le> ?n" using assms by simp_all
  have "?P i" if "i < 9" for i
    using segmentPointsOf_length[OF assms that] assms by simp
  then have f9: "filter ?P [0..<9] = [0..<9]" by (simp add: filter_id_conv)
  have split10: "[0..<10] = [0..<9] @ [9::nat]" by (simp add: upt_rec)
  have seg9: "segmentPointsOf pathPoints 9 = drop (9 * ?s) pathPoints"
    by (simp add: segmentPointsOf_def Let_def)
  show ?thesis
  proof (cases "?P 9")
    case True
    then have "filter ?P [0..<10] = [0..<9] @ [9]"
      unfolding split10 using f9 by (simp del: upt_Suc)
    then have "last (segmentsOf pathPoints fromColor toColor) = ?mk 9"
      by (simp add: segmentsOf_def del: upt_Suc)
    then have "segmentPoints (last (segmentsOf pathPoints fromColor toColor))
        = drop (9 * ?s) pathPoints"
      by (simp add: seg9)
    moreover have "9 * ?s < ?n" using s1 s10 by linarith
    ultimately show ?thesis by (simp add: last_drop)
  next
    case False
    then have "?n - 9 * ?s < 2" by (simp add: seg9)
    with s1 s10 have n: "?n = 9 * ?s + 1" by linarith
    from False have "filter ?P [0..<10] = [0..<9]"
      unfolding split10 using f9 by (simp del: upt_Suc)
    moreover have "[0..<9] = [0..<8] @ [8::nat]" by (simp add: upt_rec)
    ultimately have "last (segmentsOf pathPoints fromColor toColor) = ?mk 8"
      by (simp add: segmentsOf_def del: upt_Suc)
    then have "segmentPoints (last (segmentsOf pathPoints fromColor toColor))
        = take (?s + 1) (drop (8 * ?s) pathPoints)"
      by (simp add: segmentPointsOf_def Let_def)
    moreover have "length (drop (8 * ?s) pathPoints) = ?s + 1" using n by simp
    ultimately have "last (segmentPoints (last (segmentsOf pathPoints fromColor toColor)))
        = last (drop (8 * ?s) pathPoints)" by simp
    also have "\<dots> = last pathPoints" using n by (simp add: last_drop)
    finally show ?thesis .
  qed
qed

text \<open>
  Claim C4. Take a data set whose airport codes are IATA codes (three characters each)
  and a geodesic library that returns paths of at least ten points. Every drawn route
  belongs to a visualization of the data set, and every visualization \<open>v\<close> has exactly one
  drawn route for its unordered airport pair, a flight from A to B and a flight from B to
  A sharing that route. The route is that of the first visualization of the data set
  with this pair. Its popup content lists under the outbound heading the flights of the
  data set in that direction and under the return heading the flights in the opposite
  direction; every flight of the pair is in one of the two lists, and in only one when
  the two airports differ. The popup is bound, and the route is a group of at least nine
  segments of two or more points each, all runs of the geodesic path from the departure
  to the arrival airport of that first visualization, starting at its first point and
  ending at its last, with the two colours of the route.
\<close>

theorem renderRoutes_one_route_per_pair:
  assumes codes: "threeCharacterCodes vs"
    and path: "\<And>a b. 10 \<le> length (geodesic a b)"
    and v: "v \<in> set vs"
  shows "routeViz ` set (renderRoutes geodesic vs) \<subseteq> set vs
    \<and> (\<exists>r. filter (\<lambda>r. samePair (routeViz r) v) (renderRoutes geodesic vs) = [r]
      \<and> find (\<lambda>u. samePair u v) vs = Some (routeViz r)
      \<and> outboundFlights r = filter (\<lambda>f. sameDirection f (routeViz r)) vs
      \<and> returnFlights r = filter (\<lambda>f. oppositeDirection f (routeViz r)) vs
      \<and> (\<forall>u \<in> set vs. samePair u v \<longrightarrow> u \<in> set (outboundFlights r) \<union> set (returnFlights r))
      \<and> (iataCode (fromAirport (routeViz r)) \<noteq> iataCode (toAirport (routeViz r))
           \<longrightarrow> set (outboundFlights r) \<inter> set (returnFlights r) = {})
      \<and> popupBound r
      \<and> 9 \<le> length (flightSegments r)
      \<and> (\<forall>s \<in> set (flightSegments r).
            2 \<le> length (segmentPoints s)
            \<and> sublist (segmentPoints s)
                 (geodesic (coordinates (fromAirport (routeViz r)))
                           (coordinates (toAirport (routeViz r))))
            \<and> segmentFromColor s = routeFromColor r \<and> segmentToColor s = routeToColor r)
      \<and> hd (segmentPoints (hd (flightSegments r)))
          = hd (geodesic (coordinates (fromAirport (routeViz r)))
                         (coordinates (toAirport (routeViz r))))
      \<and> last (segmentPoints (last (flightSegments r)))
          = last (geodesic (coordinates (fromAirport (routeViz r)))
                           (coordinates (toAirport (routeViz r)))))"
proof -
  let ?k = "routeKeyOf v"
  have pair_key: "samePair u v \<longleftrightarrow> routeKeyOf u = ?k" if "u \<in> set vs" for u
    using samePair_key[of u v] key_samePair[OF codes that v] by blast
  have "find (\<lambda>u. routeKeyOf u = ?k) vs \<noteq> None"
    using v by (auto simp: find_None_iff)
  then obtain u0 where u0: "find (\<lambda>u. routeKeyOf u = ?k) vs = Some u0" by auto
  then have u0_vs: "u0 \<in> set vs" and u0_key: "routeKeyOf u0 = ?k"
    by (auto simp: find_Some_iff)
  let ?r = "drawRoute geodesic (countFrequency vs) (maxFrequencyOf (countFrequency vs))
              (groupRoutes vs) u0"
  let ?path = "geodesic (coordinates (fromAirport u0)) (coordinates (toAirport u0))"
  have rv: "routeViz ?r = u0" by (rule drawRoute_viz)
  have "filter (\<lambda>r. samePair (routeViz r) v) (renderRoutes geodesic vs)
      = filter (\<lambda>r. routeKeyOf (routeViz r) = ?k) (renderRoutes geodesic vs)"
    using renderRoutes_subset[of geodesic vs] by (intro filter_cong refl pair_key) auto
  also have "\<dots> = [?r]" by (simp add: renderRoutes_by_key u0)
  finally have one: "filter (\<lambda>r. samePair (routeViz r) v) (renderRoutes geodesic vs) = [?r]" .
  have "find (\<lambda>u. samePair u v) vs = find (\<lambda>u. routeKeyOf u = ?k) vs"
    by (rule find_cong) (simp_all add: pair_key)
  then have first: "find (\<lambda>u. samePair u v) vs = Some (routeViz ?r)"
    by (simp only: u0 rv)
  have out: "outboundFlights ?r = filter (\<lambda>f. sameDirection f (routeViz ?r)) vs"
    unfolding rv by (rule drawRoute_outbound)
  have ret: "returnFlights ?r = filter (\<lambda>f. oppositeDirection f (routeViz ?r)) vs"
    unfolding rv by (rule drawRoute_return)
  have listed: "u \<in> set (outboundFlights ?r) \<union> set (returnFlights ?r)"
    if "u \<in> set vs" "samePair u v" for u
  proof -
    from that have "routeKeyOf u = routeKeyOf u0" by (simp add: pair_key u0_key)
    from key_samePair[OF codes that(1) u0_vs this] have "samePair u u0" .
    then show ?thesis unfolding out ret rv using that(1) by (auto simp: samePair_def)
  qed
  have disjoint: "set (outboundFlights ?r) \<inter> set (returnFlights ?r) = {}"
    if "iataCode (fromAirport (routeViz ?r)) \<noteq> iataCode (toAirport (routeViz ?r))"
    using that unfolding out ret
    by (auto simp: sameDirection_def oppositeDirection_def)
  have seg: "flightSegments ?r = segmentsOf ?path (routeFromColor ?r) (routeToColor ?r)"
    by (rule drawRoute_segments)
  have len: "9 \<le> length (flightSegments ?r)"
    unfolding seg by (rule segmentsOf_length) (rule path)
  have pop: "popupBound ?r"
    using len by (simp add: drawRoute_def Let_def)
  have members: "2 \<le> length (segmentPoints s) \<and> sublist (segmentPoints s) ?path
        \<and> segmentFromColor s = routeFromColor ?r \<and> segmentToColor s = routeToColor ?r"
    if "s \<in> set (flightSegments ?r)" for s
    using that unfolding seg by (rule segmentsOf_member)
  have start: "hd (segmentPoints (hd (flightSegments ?r))) = hd ?path"
    unfolding seg by (rule segmentsOf_hd) (rule path)
  have finish: "last (segmentPoints (last (flightSegments ?r))) = last ?path"
    unfolding seg by (rule segmentsOf_last) (rule path)
  have "filter (\<lambda>r. samePair (routeViz r) v) (renderRoutes geodesic vs) = [?r]
      \<and> find (\<lambda>u. samePair u v) vs = Some (routeViz ?r)
      \<and> outboundFlights ?r = filter (\<lambda>f. sameDirection f (routeViz ?r)) vs
      \<and> returnFlights ?r = filter (\<lambda>f. oppositeDirection f (routeViz ?r)) vs
      \<and> (\<forall>u \<in> set vs. samePair u v \<longrightarrow> u \<in> set (outboundFlights ?r) \<union> set (returnFlights ?r))
      \<and> (iataCode (fromAirport (routeViz ?r)) \<noteq> iataCode (toAirport (routeViz ?r))
           \<longrightarrow> set (outboundFlights ?r) \<inter> set (returnFlights ?r) = {})
      \<and> popupBound ?r
      \<and> 9 \<le> length (flightSegments ?r)
      \<and> (\<forall>s \<in> set (flightSegments ?r).
            2 \<le> length (segmentPoints s)
            \<and> sublist (segmentPoints s)
                 (geodesic (coordinates (fromAirport (routeViz ?r)))
                           (coordinates (toAirport (routeViz ?r))))
            \<and> segmentFromColor s = routeFromColor ?r \<and> segmentToColor s = routeToColor ?r)
      \<and> hd (segmentPoints (hd (flightSegments ?r)))
          = hd (geodesic (coordinates (fromAirport (routeViz ?r)))
                         (coordinates (toAirport (routeViz ?r))))
      \<and> last (segmentPoints (last (flightSegments ?r)))
          = last (geodesic (coordinates (fromAirport (routeViz ?r)))
                           (coordinates (toAirport (routeViz ?r))))"
    unfolding rv using one[unfolded rv] first[unfolded rv] out[unfolded rv] ret[unfolded rv]
      listed disjoint[unfolded rv] pop len members start finish
    by (intro conjI ballI impI) blast+
  then show ?thesis using renderRoutes_subset[of geodesic vs] by blast
qed

theorem renderRoutes_one_route_per_pair_witness:
  "threeCharacterCodes roundTrip
   \<and> 10 \<le> length (sampleGeodesic (0, 0) (0, 0))
   \<and> sampleViz ''2'' ''HEL'' ''JFK'' 1 \<in> set roundTrip
   \<and> map routeViz
        (filter (\<lambda>r. samePair (routeViz r) (sampleViz ''2'' ''HEL'' ''JFK'' 1))
           (renderRoutes sampleGeodesic roundTrip))
      = [sampleViz ''1'' ''JFK'' ''HEL'' 0]
   \<and> map (map (flightCode \<circ> flight) \<circ> outboundFlights) (renderRoutes sampleGeodesic roundTrip)
      = [[''1'', ''3'']]
   \<and> map (map (flightCode \<circ> flight) \<circ> returnFlights) (renderRoutes sampleGeodesic roundTrip)
      = [[''2'']]
   \<and> map popupBound (renderRoutes sampleGeodesic roundTrip) = [True]
   \<and> map (length \<circ> flightSegments) (renderRoutes sampleGeodesic roundTrip) = [10]"
proof -
  let ?v = "sampleViz ''2'' ''HEL'' ''JFK'' 1"
  have h1: "threeCharacterCodes roundTrip" by code_simp
  have h2: "10 \<le> length (sampleGeodesic a b)" for a b by (simp add: sampleGeodesic_def)
  have h3: "?v \<in> set roundTrip" by code_simp
  have first: "find (\<lambda>u. samePair u ?v) roundTrip = Some (sampleViz ''1'' ''JFK'' ''HEL'' 0)"
    by code_simp
  note T = renderRoutes_one_route_per_pair [of roundTrip sampleGeodesic ?v, OF h1 h2 h3, THEN conjunct2]
  from T obtain r where
    one: "filter (\<lambda>r. samePair (routeViz r) ?v) (renderRoutes sampleGeodesic roundTrip) = [r]"
    and fst: "find (\<lambda>u. samePair u ?v) roundTrip = Some (routeViz r)"
    by (elim exE conjE)
  from fst first have "routeViz r = sampleViz ''1'' ''JFK'' ''HEL'' 0" by simp
  with one have a: "map routeViz
        (filter (\<lambda>r. samePair (routeViz r) ?v) (renderRoutes sampleGeodesic roundTrip))
      = [sampleViz ''1'' ''JFK'' ''HEL'' 0]" by simp
  have b: "map (map (flightCode \<circ> flight) \<circ> outboundFlights) (renderRoutes sampleGeodesic roundTrip)
      = [[''1'', ''3'']]" by code_simp
  have c: "map (map (flightCode \<circ> flight) \<circ> returnFlights) (renderRoutes sampleGeodesic roundTrip)
      = [[''2'']]" by code_simp
  have d: "map popupBound (renderRoutes sampleGeodesic roundTrip) = [True]" by code_simp
  have e: "map (length \<circ> flightSegments) (renderRoutes sampleGeodesic roundTrip) = [10]"
    by code_simp
  show ?thesis by (rule conjI h1 h2 h3 a b c d e)+
qed

section \<open>Properties of the playback engine\<close>

text \<open>
  Claim C5 says that stopping a playback leaves the markers and routes of the static
  rendering. This fails for the data set \<open>oneFlight\<close> when the stop request arrives during
  the first sleep: \<open>stopAnimation\<close> redraws the static scene, then the suspended flight
  loop resumes, leaves the segment loop at its abort check and adds the marker of the
  arrival airport before it reaches the abort check of the next iteration. The lines are
  those of the static rendering and no moving marker remains, but the map holds a second
  marker for JFK, one without popup.
\<close>

theorem stopAnimation_extra_arrival_marker:
  "map (iataCode \<circ> markerAirport) (markers (visualizeFlights sampleGeodesic oneFlight emptyMap))
     = [''HEL'', ''JFK'']
   \<and> map (iataCode \<circ> markerAirport)
        (markers (startAnimation sampleGeodesic oneFlight (emptyMap\<lparr> stopAfter := Some 0 \<rparr>)))
     = [''HEL'', ''JFK'', ''JFK'']
   \<and> map markerPopup
        (markers (startAnimation sampleGeodesic oneFlight (emptyMap\<lparr> stopAfter := Some 0 \<rparr>)))
     = [Some 1, Some 1, None]
   \<and> flightLines (startAnimation sampleGeodesic oneFlight (emptyMap\<lparr> stopAfter := Some 0 \<rparr>))
     = flightLines (visualizeFlights sampleGeodesic oneFlight emptyMap)
   \<and> planeMarker (startAnimation sampleGeodesic oneFlight (emptyMap\<lparr> stopAfter := Some 0 \<rparr>))
     = None
   \<and> animationAborted
        (startAnimation sampleGeodesic oneFlight (emptyMap\<lparr> stopAfter := Some 0 \<rparr>))"
  by code_simp

end
